theory Spec2Isabelle
  imports Complex_Main
begin

section \<open>Values and errors shared by the modelled modules\<close>

text \<open>
  Every exception the modelled Python code can raise is a constructor of \<open>error\<close>;
  a function that may raise returns \<open>error + 'a\<close>, with \<open>Inl\<close> for the exception.
\<close>

datatype error =
    AssertionError
  | TypeError
  | IndexError
  | ValueError
  | ConstructionError
  | FileNotFoundError
  | FileExistsError
  | OSError

text \<open>
  The Python values that the factories store without computing on them: an \<open>int\<close>,
  a \<open>float\<close> (kept abstract in \<open>'f\<close>, no arithmetic is done on it) or a \<open>str\<close>.
\<close>

datatype 'f pyval = PyInt int | PyFloat 'f | PyStr string

text \<open>\<^verbatim>\<open>range(n)\<close> for a Python integer: empty when \<open>n \<le> 0\<close>.\<close>

definition py_range :: "int \<Rightarrow> int list" where
  "py_range n = map int [0..<nat n]"

section \<open>simulator/factory/simulation\_factory/simulation\_factory.py\<close>

subsection \<open>SimulationFactory.CompartmentType\<close>

datatype CompartmentType = INTRA_AXONAL | INTER_AXONAL | EXTRA_AXONAL_1 | EXTRA_AXONAL_2

text \<open>The \<^verbatim>\<open>.value\<close> of each member of the enumeration.\<close>

fun CompartmentType_value :: "CompartmentType \<Rightarrow> string" where
  "CompartmentType_value INTRA_AXONAL = ''1''"
| "CompartmentType_value INTER_AXONAL = ''2''"
| "CompartmentType_value EXTRA_AXONAL_1 = ''3''"
| "CompartmentType_value EXTRA_AXONAL_2 = ''4''"

subsection \<open>SimulationFactory.generate\_gradient\_profile\<close>

text \<open>
  Modelled from the spec: the class \<^verbatim>\<open>GradientProfile\<close> of the module
  \<^verbatim>\<open>.parameters\<close>, which is not among the sources. The spec has it wrap the two
  padded lists and the acquisition-type object, so it is a record of the three
  constructor arguments in their order.
\<close>

record ('f, 'v) GradientProfile =
  gp_bvals :: "'f pyval list"
  gp_bvecs :: "'f pyval list list"
  gp_type :: 'v

text \<open>
  \<^verbatim>\<open>
  return GradientProfile(
      [0 for i in range(n_b0)] + bvals,
      [[0, 0, 0] for i in range(n_b0)] + bvecs,
      g_type.value(*g_type_args, **g_type_kwargs)
  )\<close>
  The classes bound to \<^verbatim>\<open>AcquisitionType\<close> are not among the sources either, so
  the outcome of the call \<^verbatim>\<open>g_type.value(*g_type_args, **g_type_kwargs)\<close> is the
  parameter \<open>g_type_value\<close>: the object built, or the exception of the constructor,
  which then leaves \<^verbatim>\<open>generate_gradient_profile\<close> uncaught.
\<close>

definition generate_gradient_profile ::
  "'f pyval list \<Rightarrow> 'f pyval list list \<Rightarrow> int \<Rightarrow> error + 'v \<Rightarrow> error + ('f, 'v) GradientProfile"
where
  "generate_gradient_profile bvals bvecs n_b0 g_type_value =
     (let padded_bvals = map (\<lambda>i. PyInt 0) (py_range n_b0) @ bvals;
          padded_bvecs = map (\<lambda>i. [PyInt 0, PyInt 0, PyInt 0]) (py_range n_b0) @ bvecs
      in case g_type_value of
           Inl e \<Rightarrow> Inl e
         | Inr g \<Rightarrow> Inr \<lparr>gp_bvals = padded_bvals, gp_bvecs = padded_bvecs, gp_type = g\<rparr>)"

subsection \<open>The compartment generators\<close>

text \<open>
  Each generator returns a Python \<^verbatim>\<open>dict\<close>, kept as the list of its items in
  insertion order. The \<^verbatim>\<open>assert\<close> that guards it raises \<open>AssertionError\<close>
  (the interpreter is taken in its default mode, which keeps assertions).
\<close>

type_synonym 'f pydict = "(string \<times> 'f pyval) list"

definition generate_fiber_stick_compartment ::
  "'f pyval \<Rightarrow> 'f pyval \<Rightarrow> 'f pyval \<Rightarrow> CompartmentType \<Rightarrow> error + 'f pydict"
where
  "generate_fiber_stick_compartment diffusivity t1 t2 compartment_type =
     (if compartment_type \<in> set [INTRA_AXONAL, INTER_AXONAL]
      then Inr [(''type'', PyStr ''fiber''),
                (''model'', PyStr ''stick''),
                (''d'', diffusivity),
                (''t1'', t1),
                (''t2'', t2),
                (''ID'', PyStr (CompartmentType_value compartment_type))]
      else Inl AssertionError)"

definition generate_fiber_tensor_compartment ::
  "'f pyval \<Rightarrow> 'f pyval \<Rightarrow> 'f pyval \<Rightarrow> 'f pyval \<Rightarrow> 'f pyval \<Rightarrow> CompartmentType
     \<Rightarrow> error + 'f pydict"
where
  "generate_fiber_tensor_compartment d1 d2 d3 t1 t2 compartment_type =
     (if compartment_type \<in> set [INTRA_AXONAL, INTER_AXONAL]
      then Inr [(''type'', PyStr ''fiber''),
                (''model'', PyStr ''tensor''),
                (''d1'', d1),
                (''d2'', d2),
                (''d3'', d3),
                (''t1'', t1),
                (''t2'', t2),
                (''ID'', PyStr (CompartmentType_value compartment_type))]
      else Inl AssertionError)"

definition generate_extra_ball_compartment ::
  "'f pyval \<Rightarrow> 'f pyval \<Rightarrow> 'f pyval \<Rightarrow> CompartmentType \<Rightarrow> error + 'f pydict"
where
  "generate_extra_ball_compartment diffusivity t1 t2 compartment_type =
     (if compartment_type \<in> set [EXTRA_AXONAL_1, EXTRA_AXONAL_2]
      then Inr [(''type'', PyStr ''non-fiber''),
                (''model'', PyStr ''ball''),
                (''d'', diffusivity),
                (''t1'', t1),
                (''t2'', t2),
                (''ID'', PyStr (CompartmentType_value compartment_type))]
      else Inl AssertionError)"

section \<open>utils/Translation.py\<close>

subsection \<open>Fibers\<close>

text \<open>
  Modelled from the spec: the class \<^verbatim>\<open>Fiber\<close> and \<^verbatim>\<open>GeometryFactory.create_fiber\<close>
  (factory/geometry\_factory/geometry\_factory.py is not among the sources). The spec has
  a Fiber hold a radius, a symmetry, a sampling and the ordered anchor points, and has
  \<^verbatim>\<open>create_fiber(radius, symmetry, sampling, anchors)\<close> validate \<open>radius > 0\<close>,
  \<open>symmetry \<ge> 1\<close>, \<open>sampling \<ge> 1\<close> and that the anchors are not empty, an anchor that
  is not of length 3 being a construction error. The coordinate type \<open>'a\<close> stands for
  the numbers of the arrays; only its operations are used, none of their laws.
\<close>

record 'a Fiber =
  get_radius :: 'a
  get_symmetry :: int
  get_sampling :: int
  get_anchors :: "'a list list"

definition create_fiber ::
  "'a::{zero,ord} \<Rightarrow> int \<Rightarrow> int \<Rightarrow> 'a list list \<Rightarrow> error + 'a Fiber"
where
  "create_fiber radius symmetry sampling anchors =
     (if 0 < radius \<and> 1 \<le> symmetry \<and> 1 \<le> sampling \<and> anchors \<noteq> []
         \<and> list_all (\<lambda>a. length a = 3) anchors
      then Inr \<lparr>get_radius = radius, get_symmetry = symmetry, get_sampling = sampling,
                get_anchors = anchors\<rparr>
      else Inl ConstructionError)"

subsection \<open>Array addition\<close>

text \<open>
  \<^verbatim>\<open>(array(pt) + array(translation)).tolist()\<close> on two flat lists: numpy adds
  elementwise when the lengths agree, stretches an operand of length 1 over the other
  one, and raises \<open>ValueError\<close> (operands could not be broadcast together) otherwise.
\<close>

definition np_add :: "'a::plus list \<Rightarrow> 'a list \<Rightarrow> error + 'a list" where
  "np_add xs ys =
     (if length xs = length ys then Inr (map2 (+) xs ys)
      else if length xs = 1 then Inr (map (\<lambda>y. hd xs + y) ys)
      else if length ys = 1 then Inr (map (\<lambda>x. x + hd ys) xs)
      else Inl ValueError)"

subsection \<open>translate\_fiber\<close>

text \<open>
  The variables of a call of \<^verbatim>\<open>translate_fiber\<close>: its three arguments and its two
  local lists. The body is a transformer of this frame, so that what the call leaves in
  the objects it was given can be read off the frame at the \<^verbatim>\<open>return\<close>.
\<close>

record 'a frame =
  v_fiber :: "'a Fiber"
  v_bbox :: "'a list list"
  v_translation :: "'a list"
  v_t_anchors :: "'a list list"
  v_t_bbox :: "'a list list"

text \<open>\<^verbatim>\<open>for anchor in anchors: t_anchors.append((array(anchor) + array(translation)).tolist())\<close>\<close>

fun anchors_loop :: "'a::plus list list \<Rightarrow> 'a frame \<Rightarrow> error + 'a frame" where
  "anchors_loop [] s = Inr s"
| "anchors_loop (anchor # rest) s =
     (case np_add anchor (v_translation s) of
        Inl e \<Rightarrow> Inl e
      | Inr v \<Rightarrow> anchors_loop rest (s\<lparr>v_t_anchors := v_t_anchors s @ [v]\<rparr>))"

text \<open>\<^verbatim>\<open>for pt in bbox: t_bbox.append((array(pt) + array(translation)).tolist())\<close>\<close>

fun bbox_loop :: "'a::plus list list \<Rightarrow> 'a frame \<Rightarrow> error + 'a frame" where
  "bbox_loop [] s = Inr s"
| "bbox_loop (pt # rest) s =
     (case np_add pt (v_translation s) of
        Inl e \<Rightarrow> Inl e
      | Inr v \<Rightarrow> bbox_loop rest (s\<lparr>v_t_bbox := v_t_bbox s @ [v]\<rparr>))"

text \<open>
  The result is the returned pair \<^verbatim>\<open>(t_bbox, create_fiber(...))\<close> together with the
  frame at the \<^verbatim>\<open>return\<close>.
\<close>

definition translate_fiber ::
  "'a::{plus,zero,ord} Fiber \<Rightarrow> 'a list list \<Rightarrow> 'a list
     \<Rightarrow> error + ('a list list \<times> 'a Fiber) \<times> 'a frame"
where
  "translate_fiber fiber bbox translation =
     (let s0 = \<lparr>v_fiber = fiber, v_bbox = bbox, v_translation = translation,
                v_t_anchors = [], v_t_bbox = []\<rparr>
      in case anchors_loop (get_anchors (v_fiber s0)) s0 of
           Inl e \<Rightarrow> Inl e
         | Inr s1 \<Rightarrow>
             (case (if length (v_bbox s1) > 0 then bbox_loop (v_bbox s1) s1 else Inr s1) of
                Inl e \<Rightarrow> Inl e
              | Inr s2 \<Rightarrow>
                  (case create_fiber (get_radius (v_fiber s2)) (get_symmetry (v_fiber s2))
                          (get_sampling (v_fiber s2)) (v_t_anchors s2) of
                     Inl e \<Rightarrow> Inl e
                   | Inr new_fiber \<Rightarrow> Inr ((v_t_bbox s2, new_fiber), s2))))"

text \<open>
  Well-formed input, as the spec has it: a fiber that \<^verbatim>\<open>create_fiber\<close> builds, a
  bounding box of points of length 3 and a translation of length 3.
\<close>

definition well_formed :: "'a::{zero,ord} Fiber \<Rightarrow> 'a list list \<Rightarrow> 'a list \<Rightarrow> bool" where
  "well_formed fiber bbox translation =
     (create_fiber (get_radius fiber) (get_symmetry fiber) (get_sampling fiber)
         (get_anchors fiber) = Inr fiber
      \<and> list_all (\<lambda>pt. length pt = 3) bbox
      \<and> length translation = 3)"

section \<open>utils/Rotation.py\<close>

text \<open>
  Modelled from the spec: \<^verbatim>\<open>rotate_fiber(fiber, bbox, rotation, pivot, extra)\<close>
  (utils/Rotation.py is not among the sources). The spec has the rotation given by a plane
  and an angle, and each anchor \<open>a\<close> become \<open>pivot + R (a - pivot)\<close>, where \<open>R\<close> is the
  2D rotation matrix of the plane, the identity on the third axis; the points of the
  bounding box undergo the same transform, and the pair \<open>(new_bbox, new_fiber)\<close> is
  returned. The spec gives the last argument no role. Coordinates are real numbers
  here; a point or pivot that is not of length 3, for which the spec says nothing,
  is refused.
\<close>

datatype Plane = XY | YZ | XZ

fun rotate_point :: "Plane \<Rightarrow> real \<Rightarrow> real list \<Rightarrow> real list \<Rightarrow> error + real list" where
  "rotate_point XY angle [px, py, pz] [x, y, z] =
     Inr [px + (cos angle * (x - px) - sin angle * (y - py)),
          py + (sin angle * (x - px) + cos angle * (y - py)),
          pz + (z - pz)]"
| "rotate_point YZ angle [px, py, pz] [x, y, z] =
     Inr [px + (x - px),
          py + (cos angle * (y - py) - sin angle * (z - pz)),
          pz + (sin angle * (y - py) + cos angle * (z - pz))]"
| "rotate_point XZ angle [px, py, pz] [x, y, z] =
     Inr [px + (cos angle * (x - px) - sin angle * (z - pz)),
          py + (y - py),
          pz + (sin angle * (x - px) + cos angle * (z - pz))]"
| "rotate_point plane angle pivot a = Inl ValueError"

fun rotate_points :: "Plane \<Rightarrow> real \<Rightarrow> real list \<Rightarrow> real list list \<Rightarrow> error + real list list" where
  "rotate_points plane angle pivot [] = Inr []"
| "rotate_points plane angle pivot (a # rest) =
     (case rotate_point plane angle pivot a of
        Inl e \<Rightarrow> Inl e
      | Inr v \<Rightarrow>
          (case rotate_points plane angle pivot rest of
             Inl e \<Rightarrow> Inl e
           | Inr vs \<Rightarrow> Inr (v # vs)))"

definition rotate_fiber ::
  "real Fiber \<Rightarrow> real list list \<Rightarrow> Plane \<times> real \<Rightarrow> real list \<Rightarrow> 'x
     \<Rightarrow> error + real list list \<times> real Fiber"
where
  "rotate_fiber fiber bbox rotation pivot extra =
     (case rotate_points (fst rotation) (snd rotation) pivot (get_anchors fiber) of
        Inl e \<Rightarrow> Inl e
      | Inr new_anchors \<Rightarrow>
          (case rotate_points (fst rotation) (snd rotation) pivot bbox of
             Inl e \<Rightarrow> Inl e
           | Inr new_bbox \<Rightarrow>
               (case create_fiber (get_radius fiber) (get_symmetry fiber) (get_sampling fiber)
                       new_anchors of
                  Inl e \<Rightarrow> Inl e
                | Inr new_fiber \<Rightarrow> Inr (new_bbox, new_fiber))))"

section \<open>factory/geometry\_factory/features/geometry\_handler.py\<close>

subsection \<open>Strings and paths\<close>

text \<open>\<^verbatim>\<open>"{}".format(i)\<close> for an index \<open>i\<close> of \<^verbatim>\<open>range(...)\<close>: its decimal digits.\<close>

fun str_nat :: "nat \<Rightarrow> string" where
  "str_nat n =
     (if n < 10 then [''0123456789'' ! n]
      else str_nat (n div 10) @ [''0123456789'' ! (n mod 10)])"

declare str_nat.simps [simp del]

text \<open>\<^verbatim>\<open>sep.join(parts)\<close>\<close>

fun str_join :: "string \<Rightarrow> string list \<Rightarrow> string" where
  "str_join sep [] = []"
| "str_join sep [x] = x"
| "str_join sep (x # y # ys) = x @ sep @ str_join sep (y # ys)"

text \<open>
  \<^verbatim>\<open>os.path.join(a, b)\<close> of posixpath: an absolute \<open>b\<close> replaces \<open>a\<close>; an empty \<open>a\<close> or
  one that ends with the separator takes \<open>b\<close> as it is; otherwise the separator comes
  between them.
\<close>

definition path_join :: "string \<Rightarrow> string \<Rightarrow> string" where
  "path_join a b =
     (if b \<noteq> [] \<and> hd b = CHR ''/'' then b
      else if a = [] \<or> last a = CHR ''/'' then a @ b
      else a @ ''/'' @ b)"

subsection \<open>The file system\<close>

text \<open>
  The operating system, as far as the handler uses it: the paths that exist, the text of
  the files, the paths opened for writing so far (in order), and the paths that the
  system refuses to create as a directory or to open for writing. A call that raises
  returns the exception together with the file system as the call left it.
\<close>

record fs =
  present :: "string set"
  files :: "string \<rightharpoonup> string"
  opened :: "string list"
  mkdir_refused :: "string set"
  open_refused :: "string set"

type_synonym io_result = "(error \<times> fs) + fs"

text \<open>\<^verbatim>\<open>os.path.exists(p)\<close>: the empty path never exists.\<close>

definition path_exists :: "fs \<Rightarrow> string \<Rightarrow> bool" where
  "path_exists s p = (p \<noteq> [] \<and> p \<in> present s)"

text \<open>
  \<^verbatim>\<open>os.makedirs(p)\<close>: the empty path cannot be created (\<open>FileNotFoundError\<close>), an
  existing one raises \<open>FileExistsError\<close>. The parent directories that the call creates
  on the way are not recorded: the handler asks only for \<open>p\<close> itself.
\<close>

definition makedirs :: "fs \<Rightarrow> string \<Rightarrow> io_result" where
  "makedirs s p =
     (if p = [] then Inl (FileNotFoundError, s)
      else if p \<in> present s then Inl (FileExistsError, s)
      else if p \<in> mkdir_refused s then Inl (OSError, s)
      else Inr (s\<lparr>present := insert p (present s)\<rparr>))"

text \<open>\<^verbatim>\<open>open(p, "w+")\<close>: the file is created or truncated.\<close>

definition open_w :: "fs \<Rightarrow> string \<Rightarrow> io_result" where
  "open_w s p =
     (if p \<in> open_refused s then Inl (OSError, s)
      else Inr (s\<lparr>present := insert p (present s),
                  files := (files s)(p \<mapsto> []),
                  opened := opened s @ [p]\<rparr>))"

text \<open>\<^verbatim>\<open>f.write(text)\<close> on the file opened at \<open>p\<close>.\<close>

definition write_text :: "fs \<Rightarrow> string \<Rightarrow> string \<Rightarrow> fs" where
  "write_text s p text =
     s\<lparr>files := (files s)(p \<mapsto> (case files s p of None \<Rightarrow> text | Some old \<Rightarrow> old @ text))\<rparr>"

subsection \<open>The objects of the object model\<close>

text \<open>
  The class \<^verbatim>\<open>Bundle\<close> is not among the sources; the handler calls two of its
  methods, and a bundle is the record of what they return. A sphere is used only
  through its \<^verbatim>\<open>serialize\<close>, and stays abstract in \<open>'s\<close>.
\<close>

record 'c Bundle =
  get_bundle_center :: 'c
  serialize :: string

text \<open>
  Modelled from the spec: \<^verbatim>\<open>ConfigBuilder.create_world(dimension, resolution)\<close> and
  \<^verbatim>\<open>ConfigBuilder.create_bundle_object(name, file_refs, weights, center)\<close>
  (ORM/config\_builder.py is not among the sources). The spec has them be the canonical
  constructors of the entries that the handler emits, and has a mismatch of dimension
  and resolution fail at the construction of the world.
\<close>

record World =
  dimension :: int
  resolution :: "int list"

definition create_world :: "int \<Rightarrow> int list \<Rightarrow> error + World" where
  "create_world n_dims res =
     (if n_dims = int (length res) then Inr \<lparr>dimension = n_dims, resolution = res\<rparr>
      else Inl ConstructionError)"

datatype ('c, 's) structure_entry =
    BundleObject string "string list" "int list" 'c
  | SphereEntry 's

definition create_bundle_object ::
  "string \<Rightarrow> string list \<Rightarrow> int list \<Rightarrow> 'c \<Rightarrow> ('c, 's) structure_entry"
where
  "create_bundle_object name file_refs weights center = BundleObject name file_refs weights center"

text \<open>
  The \<^verbatim>\<open>serialize(indent)\<close> methods of the world and of the structure entries belong
  to the same missing module; they are parameters of the model.
\<close>

record ('c, 's) ORM =
  world_serialize :: "nat \<Rightarrow> World \<Rightarrow> string"
  structure_serialize :: "nat \<Rightarrow> ('c, 's) structure_entry \<Rightarrow> string"

subsection \<open>GeometryHandler\<close>

text \<open>The dictionary \<^verbatim>\<open>_parameters_dict\<close> with its four keys.\<close>

record ('n, 'c, 's) GeometryHandler =
  p_resolution :: "int list"
  p_spacing :: "'n list"
  p_bundles :: "'c Bundle list"
  p_spheres :: "'s list"

definition init :: "int list \<Rightarrow> 'n list \<Rightarrow> ('n, 'c, 's) GeometryHandler" where
  "init res sp = \<lparr>p_resolution = res, p_spacing = sp, p_bundles = [], p_spheres = []\<rparr>"

definition add_sphere :: "('n, 'c, 's) GeometryHandler \<Rightarrow> 's \<Rightarrow> ('n, 'c, 's) GeometryHandler" where
  "add_sphere self sphere = self\<lparr>p_spheres := p_spheres self @ [sphere]\<rparr>"

definition add_bundle ::
  "('n, 'c, 's) GeometryHandler \<Rightarrow> 'c Bundle \<Rightarrow> ('n, 'c, 's) GeometryHandler"
where
  "add_bundle self bundle = self\<lparr>p_bundles := p_bundles self @ [bundle]\<rparr>"

definition get_resolution :: "('n, 'c, 's) GeometryHandler \<Rightarrow> int list" where
  "get_resolution self = p_resolution self"

definition get_spacing :: "('n, 'c, 's) GeometryHandler \<Rightarrow> 'n list" where
  "get_spacing self = p_spacing self"

text \<open>\<^verbatim>\<open>_generate_bundle_base(i)\<close>: the index of a missing bundle raises \<open>IndexError\<close>.\<close>

definition generate_bundle_base ::
  "('n, 'c, 's) GeometryHandler \<Rightarrow> nat \<Rightarrow> error + ('c, 's) structure_entry"
where
  "generate_bundle_base self i =
     (if i < length (p_bundles self)
      then Inr (create_bundle_object [] [''f_'' @ str_nat i] [1]
                  (get_bundle_center (p_bundles self ! i)))
      else Inl IndexError)"

definition get_number_of_bundles :: "('n, 'c, 's) GeometryHandler \<Rightarrow> nat" where
  "get_number_of_bundles self = length (p_bundles self)"

text \<open>\<^verbatim>\<open>[self._generate_bundle_base(i) for i in ...]\<close>, stopping at the first exception.\<close>

fun bundle_bases ::
  "('n, 'c, 's) GeometryHandler \<Rightarrow> nat list \<Rightarrow> error + ('c, 's) structure_entry list"
where
  "bundle_bases self [] = Inr []"
| "bundle_bases self (i # rest) =
     (case generate_bundle_base self i of
        Inl e \<Rightarrow> Inl e
      | Inr b \<Rightarrow>
          (case bundle_bases self rest of
             Inl e \<Rightarrow> Inl e
           | Inr bs \<Rightarrow> Inr (b # bs)))"

text \<open>
  Lines 47 and 48: the list \<^verbatim>\<open>structures\<close>, the bundle entries followed by the
  spheres.
\<close>

definition structures ::
  "('n, 'c, 's) GeometryHandler \<Rightarrow> error + ('c, 's) structure_entry list"
where
  "structures self =
     (case bundle_bases self [0..<get_number_of_bundles self] of
        Inl e \<Rightarrow> Inl e
      | Inr bs \<Rightarrow> Inr (bs @ map SphereEntry (p_spheres self)))"

text \<open>The text given to \<^verbatim>\<open>base_file.write\<close> (lines 50 to 57).\<close>

definition base_text ::
  "('c, 's) ORM \<Rightarrow> World \<Rightarrow> string \<Rightarrow> ('c, 's) structure_entry list \<Rightarrow> string"
where
  "base_text orm world simulation_path structs =
     ''{\<newline>'' @
     ''    \"world\": '' @ world_serialize orm 6 world @ '',\<newline>'' @
     (''    \"path\": \"'' @ simulation_path @ ''\"'') @ '',\<newline>'' @
     ''    \"structures\": [\<newline>'' @ ''      '' @
       str_join '',\<newline>'' (map (structure_serialize orm 8) structs) @ ''\<newline>    ]\<newline>'' @
     ''}''"

definition base_path :: "string \<Rightarrow> string \<Rightarrow> string" where
  "base_path output_naming simulation_path =
     path_join simulation_path (output_naming @ ''_geometry_base.json'')"

definition spline_path :: "string \<Rightarrow> string \<Rightarrow> nat \<Rightarrow> string" where
  "spline_path output_naming simulation_path bundle_idx =
     path_join simulation_path (output_naming @ ''_f_'' @ str_nat bundle_idx @ ''.vspl'')"

text \<open>The loop of lines 59 to 61 over the indices still to be written.\<close>

fun write_splines ::
  "('n, 'c, 's) GeometryHandler \<Rightarrow> string \<Rightarrow> string \<Rightarrow> nat list \<Rightarrow> fs \<Rightarrow> io_result"
where
  "write_splines self output_naming simulation_path [] s = Inr s"
| "write_splines self output_naming simulation_path (bundle_idx # rest) s =
     (case open_w s (spline_path output_naming simulation_path bundle_idx) of
        Inl e \<Rightarrow> Inl e
      | Inr s1 \<Rightarrow>
          (if bundle_idx < length (p_bundles self)
           then write_splines self output_naming simulation_path rest
                  (write_text s1 (spline_path output_naming simulation_path bundle_idx)
                     (serialize (p_bundles self ! bundle_idx)))
           else Inl (IndexError, s1)))"

text \<open>The world entry that a handler emits (line 46).\<close>

definition world_entry :: "('n, 'c, 's) GeometryHandler \<Rightarrow> error + World" where
  "world_entry self = create_world (int (length (get_resolution self))) (get_resolution self)"

definition generate_json_configuration_files ::
  "('c, 's) ORM \<Rightarrow> ('n, 'c, 's) GeometryHandler \<Rightarrow> string \<Rightarrow> string \<Rightarrow> fs \<Rightarrow> io_result"
where
  "generate_json_configuration_files orm self output_naming simulation_path s =
     (case (if \<not> path_exists s simulation_path then makedirs s simulation_path else Inr s) of
        Inl e \<Rightarrow> Inl e
      | Inr s1 \<Rightarrow>
          (case open_w s1 (base_path output_naming simulation_path) of
             Inl e \<Rightarrow> Inl e
           | Inr s2 \<Rightarrow>
               (case world_entry self of
                  Inl e \<Rightarrow> Inl (e, s2)
                | Inr world \<Rightarrow>
                    (case structures self of
                       Inl e \<Rightarrow> Inl (e, s2)
                     | Inr structs \<Rightarrow>
                         write_splines self output_naming simulation_path
                           [0..<length (p_bundles self)]
                           (write_text s2 (base_path output_naming simulation_path)
                              (base_text orm world simulation_path structs))))))"

text \<open>The default of the parameter \<^verbatim>\<open>simulation_path\<close>.\<close>

definition simulation_path_default :: string where
  "simulation_path_default = []"

subsection \<open>The worked example of the spec\<close>

text \<open>
  Resolution \<open>[10, 10, 10]\<close>, spacing \<open>[2, 2, 2]\<close>, one bundle and one sphere, written
  under the name \<open>test\<close> to the directory \<open>out\<close> of an empty file system; the
  serializers of the example print a world as its dimension and its resolution, a
  bundle entry as its file references and a sphere as itself.
\<close>

definition example_orm :: "(int list, string) ORM" where
  "example_orm =
     \<lparr>world_serialize =
        (\<lambda>indent w. str_nat (nat (dimension w)) @ ''D '' @
                      str_join '','' (map (\<lambda>r. str_nat (nat r)) (resolution w))),
      structure_serialize =
        (\<lambda>indent e. case e of BundleObject name refs weights center \<Rightarrow> concat refs
                             | SphereEntry t \<Rightarrow> t)\<rparr>"

definition example_handler :: "(int, int list, string) GeometryHandler" where
  "example_handler =
     add_sphere
       (add_bundle (init [10, 10, 10] [2, 2, 2])
          \<lparr>get_bundle_center = [0, 0, 0], serialize = ''fibers''\<rparr>)
       ''sphere''"

definition empty_fs :: fs where
  "empty_fs = \<lparr>present = {}, files = Map.empty, opened = [], mkdir_refused = {},
               open_refused = {}\<rparr>"

definition example_output :: fs where
  "example_output =
     \<lparr>present = {''out'', ''out/test_geometry_base.json'', ''out/test_f_0.vspl''},
      files = [''out/test_geometry_base.json'' \<mapsto>
                 ''{\<newline>    \"world\": 3D 10,10,10,\<newline>    \"path\": \"out\",\<newline>    \"structures\": [\<newline>      f_0,\<newline>sphere\<newline>    ]\<newline>}'',
               ''out/test_f_0.vspl'' \<mapsto> ''fibers''],
      opened = [''out/test_geometry_base.json'', ''out/test_f_0.vspl''],
      mkdir_refused = {}, open_refused = {}\<rparr>"

section \<open>Properties of the simulation factory\<close>

lemma py_range_pad: "map (\<lambda>i. c) (py_range n) = replicate (nat n) c"
  by (simp add: py_range_def map_replicate_const)

text \<open>
  Claim C1. For natural \<open>n_b0\<close>, whenever the acquisition-type object is built, the
  profile returned holds \<open>n_b0\<close> zeros followed by \<open>bvals\<close> and \<open>n_b0\<close> copies of
  \<open>[0, 0, 0]\<close> followed by \<open>bvecs\<close>, both in their order; and the call of the spec's
  example (two b-values, two b-vectors, \<open>n_b0 = 2\<close>) yields \<open>[0, 0, 1000, 2000]\<close> and
  \<open>[[0,0,0], [0,0,0], [1,0,0], [0,1,0]]\<close>.
\<close>

theorem generate_gradient_profile_pads:
  fixes bvals :: "'f pyval list"
  assumes "0 \<le> n_b0"
  shows "generate_gradient_profile bvals bvecs n_b0 (Inr g) =
           Inr \<lparr>gp_bvals = replicate (nat n_b0) (PyInt 0) @ bvals,
                gp_bvecs = replicate (nat n_b0) [PyInt 0, PyInt 0, PyInt 0] @ bvecs,
                gp_type = g\<rparr>
       \<and> generate_gradient_profile
           [PyInt 1000, PyInt 2000 :: 'f pyval]
           [[PyInt 1, PyInt 0, PyInt 0], [PyInt 0, PyInt 1, PyInt 0]] 2 (Inr g) =
           Inr \<lparr>gp_bvals = [PyInt 0, PyInt 0, PyInt 1000, PyInt 2000],
                gp_bvecs = [[PyInt 0, PyInt 0, PyInt 0], [PyInt 0, PyInt 0, PyInt 0],
                            [PyInt 1, PyInt 0, PyInt 0], [PyInt 0, PyInt 1, PyInt 0]],
                gp_type = g\<rparr>"
proof
  show "generate_gradient_profile bvals bvecs n_b0 (Inr g) =
           Inr \<lparr>gp_bvals = replicate (nat n_b0) (PyInt 0) @ bvals,
                gp_bvecs = replicate (nat n_b0) [PyInt 0, PyInt 0, PyInt 0] @ bvecs,
                gp_type = g\<rparr>"
    by (simp add: generate_gradient_profile_def py_range_pad)
next
  show "generate_gradient_profile
           [PyInt 1000, PyInt 2000 :: 'f pyval]
           [[PyInt 1, PyInt 0, PyInt 0], [PyInt 0, PyInt 1, PyInt 0]] 2 (Inr g) =
           Inr \<lparr>gp_bvals = [PyInt 0, PyInt 0, PyInt 1000, PyInt 2000],
                gp_bvecs = [[PyInt 0, PyInt 0, PyInt 0], [PyInt 0, PyInt 0, PyInt 0],
                            [PyInt 1, PyInt 0, PyInt 0], [PyInt 0, PyInt 1, PyInt 0]],
                gp_type = g\<rparr>"
    by (simp add: generate_gradient_profile_def py_range_pad numeral_2_eq_2)
qed

theorem generate_gradient_profile_pads_witness:
  "(0::int) \<le> 3
   \<and> generate_gradient_profile [PyFloat (1::nat)] [[PyInt 0, PyInt 0, PyInt 1]] 3 (Inr ''st'') =
       Inr \<lparr>gp_bvals = [PyInt 0, PyInt 0, PyInt 0, PyFloat 1],
            gp_bvecs = [[PyInt 0, PyInt 0, PyInt 0], [PyInt 0, PyInt 0, PyInt 0],
                        [PyInt 0, PyInt 0, PyInt 0], [PyInt 0, PyInt 0, PyInt 1]],
            gp_type = ''st''\<rparr>"
proof -
  have h: "(0::int) \<le> 3" by simp
  from generate_gradient_profile_pads [OF h, of "[PyFloat (1::nat)]" "[[PyInt 0, PyInt 0, PyInt 1]]" "''st''"]
  show ?thesis by (simp add: numeral_3_eq_3)
qed

text \<open>
  Claim C8. When \<open>bvals\<close> and \<open>bvecs\<close> have the same length before padding, the profile
  returned (for any \<open>n_b0\<close>, negative ones included, and any acquisition-type object
  built) has b-value and b-vector sequences of equal length.
\<close>

theorem generate_gradient_profile_equal_lengths:
  assumes "length bvals = length bvecs"
  shows "\<exists>gp. generate_gradient_profile bvals bvecs n_b0 (Inr g) = Inr gp
            \<and> length (gp_bvals gp) = length (gp_bvecs gp)"
  using assms by (simp add: generate_gradient_profile_def)

theorem generate_gradient_profile_equal_lengths_witness:
  "length [PyInt 1000, PyInt 2000 :: nat pyval]
     = length [[PyInt 1, PyInt 0, PyInt 0], [PyInt 0, PyInt 1, PyInt 0 :: nat pyval]]
   \<and> (\<exists>gp. generate_gradient_profile [PyInt 1000, PyInt 2000 :: nat pyval]
              [[PyInt 1, PyInt 0, PyInt 0], [PyInt 0, PyInt 1, PyInt 0]] 2 (Inr ''st'') = Inr gp
          \<and> length (gp_bvals gp) = length (gp_bvecs gp))"
proof -
  have h: "length [PyInt 1000, PyInt 2000 :: nat pyval]
     = length [[PyInt 1, PyInt 0, PyInt 0], [PyInt 0, PyInt 1, PyInt 0 :: nat pyval]]"
    by simp
  from generate_gradient_profile_equal_lengths [OF h, of 2 "''st''"] h
  show ?thesis by blast
qed

text \<open>
  Claim C2. The stick and tensor generators raise exactly when the compartment type is
  outside \<open>{INTRA_AXONAL, INTER_AXONAL}\<close>, the ball generator exactly when it is outside
  \<open>{EXTRA_AXONAL_1, EXTRA_AXONAL_2}\<close>; on each permitted type the generator returns its
  record, whose \<open>ID\<close> is the value of the type.
\<close>

theorem compartment_type_guard:
  "(generate_fiber_stick_compartment d t1 t2 ct = Inl AssertionError)
      = (ct \<notin> {INTRA_AXONAL, INTER_AXONAL})
   \<and> (generate_fiber_tensor_compartment d1 d2 d3 t1 t2 ct = Inl AssertionError)
      = (ct \<notin> {INTRA_AXONAL, INTER_AXONAL})
   \<and> (generate_extra_ball_compartment d t1 t2 ct = Inl AssertionError)
      = (ct \<notin> {EXTRA_AXONAL_1, EXTRA_AXONAL_2})
   \<and> isl (generate_fiber_stick_compartment d t1 t2 ct) = (ct \<notin> {INTRA_AXONAL, INTER_AXONAL})
   \<and> isl (generate_fiber_tensor_compartment d1 d2 d3 t1 t2 ct)
      = (ct \<notin> {INTRA_AXONAL, INTER_AXONAL})
   \<and> isl (generate_extra_ball_compartment d t1 t2 ct) = (ct \<notin> {EXTRA_AXONAL_1, EXTRA_AXONAL_2})
   \<and> generate_fiber_stick_compartment d t1 t2 INTRA_AXONAL =
       Inr [(''type'', PyStr ''fiber''), (''model'', PyStr ''stick''), (''d'', d),
            (''t1'', t1), (''t2'', t2), (''ID'', PyStr ''1'')]
   \<and> generate_fiber_stick_compartment d t1 t2 INTER_AXONAL =
       Inr [(''type'', PyStr ''fiber''), (''model'', PyStr ''stick''), (''d'', d),
            (''t1'', t1), (''t2'', t2), (''ID'', PyStr ''2'')]
   \<and> generate_fiber_tensor_compartment d1 d2 d3 t1 t2 INTRA_AXONAL =
       Inr [(''type'', PyStr ''fiber''), (''model'', PyStr ''tensor''), (''d1'', d1),
            (''d2'', d2), (''d3'', d3), (''t1'', t1), (''t2'', t2), (''ID'', PyStr ''1'')]
   \<and> generate_fiber_tensor_compartment d1 d2 d3 t1 t2 INTER_AXONAL =
       Inr [(''type'', PyStr ''fiber''), (''model'', PyStr ''tensor''), (''d1'', d1),
            (''d2'', d2), (''d3'', d3), (''t1'', t1), (''t2'', t2), (''ID'', PyStr ''2'')]
   \<and> generate_extra_ball_compartment d t1 t2 EXTRA_AXONAL_1 =
       Inr [(''type'', PyStr ''non-fiber''), (''model'', PyStr ''ball''), (''d'', d),
            (''t1'', t1), (''t2'', t2), (''ID'', PyStr ''3'')]
   \<and> generate_extra_ball_compartment d t1 t2 EXTRA_AXONAL_2 =
       Inr [(''type'', PyStr ''non-fiber''), (''model'', PyStr ''ball''), (''d'', d),
            (''t1'', t1), (''t2'', t2), (''ID'', PyStr ''4'')]"
  by (cases ct)
     (simp_all add: generate_fiber_stick_compartment_def generate_fiber_tensor_compartment_def
        generate_extra_ball_compartment_def)

section \<open>Properties of the fiber transforms\<close>

lemma anchors_loop_Inr:
  "anchors_loop pts s = Inr s' \<Longrightarrow>
     \<exists>vs. s' = s\<lparr>v_t_anchors := v_t_anchors s @ vs\<rparr>
        \<and> list_all2 (\<lambda>a v. np_add a (v_translation s) = Inr v) pts vs"
proof (induction pts arbitrary: s)
  case Nil
  then show ?case by simp
next
  case (Cons a pts)
  from Cons.prems obtain v where v: "np_add a (v_translation s) = Inr v"
    and rest: "anchors_loop pts (s\<lparr>v_t_anchors := v_t_anchors s @ [v]\<rparr>) = Inr s'"
    by (auto split: sum.splits)
  from Cons.IH [OF rest] obtain vs where
    s': "s' = s\<lparr>v_t_anchors := (v_t_anchors s @ [v]) @ vs\<rparr>"
    and all: "list_all2 (\<lambda>a v. np_add a (v_translation s) = Inr v) pts vs"
    by auto
  show ?case
  proof (intro exI conjI)
    show "s' = s\<lparr>v_t_anchors := v_t_anchors s @ (v # vs)\<rparr>" using s' by simp
    show "list_all2 (\<lambda>a v. np_add a (v_translation s) = Inr v) (a # pts) (v # vs)"
      using v all by simp
  qed
qed

lemma bbox_loop_Inr:
  "bbox_loop pts s = Inr s' \<Longrightarrow>
     \<exists>vs. s' = s\<lparr>v_t_bbox := v_t_bbox s @ vs\<rparr>
        \<and> list_all2 (\<lambda>a v. np_add a (v_translation s) = Inr v) pts vs"
proof (induction pts arbitrary: s)
  case Nil
  then show ?case by simp
next
  case (Cons a pts)
  from Cons.prems obtain v where v: "np_add a (v_translation s) = Inr v"
    and rest: "bbox_loop pts (s\<lparr>v_t_bbox := v_t_bbox s @ [v]\<rparr>) = Inr s'"
    by (auto split: sum.splits)
  from Cons.IH [OF rest] obtain vs where
    s': "s' = s\<lparr>v_t_bbox := (v_t_bbox s @ [v]) @ vs\<rparr>"
    and all: "list_all2 (\<lambda>a v. np_add a (v_translation s) = Inr v) pts vs"
    by auto
  show ?case
  proof (intro exI conjI)
    show "s' = s\<lparr>v_t_bbox := v_t_bbox s @ (v # vs)\<rparr>" using s' by simp
    show "list_all2 (\<lambda>a v. np_add a (v_translation s) = Inr v) (a # pts) (v # vs)"
      using v all by simp
  qed
qed

lemma anchors_loop_same_length:
  "list_all (\<lambda>a. length a = length (v_translation s)) pts \<Longrightarrow>
   anchors_loop pts s =
     Inr (s\<lparr>v_t_anchors := v_t_anchors s @ map (\<lambda>a. map2 (+) a (v_translation s)) pts\<rparr>)"
  by (induction pts arbitrary: s) (simp_all add: np_add_def)

lemma bbox_loop_same_length:
  "list_all (\<lambda>a. length a = length (v_translation s)) pts \<Longrightarrow>
   bbox_loop pts s =
     Inr (s\<lparr>v_t_bbox := v_t_bbox s @ map (\<lambda>a. map2 (+) a (v_translation s)) pts\<rparr>)"
  by (induction pts arbitrary: s) (simp_all add: np_add_def)

lemma create_fiber_Inr:
  "create_fiber r sy sa anchors = Inr f \<Longrightarrow>
     f = \<lparr>get_radius = r, get_symmetry = sy, get_sampling = sa, get_anchors = anchors\<rparr>
     \<and> 0 < r \<and> 1 \<le> sy \<and> 1 \<le> sa \<and> anchors \<noteq> [] \<and> list_all (\<lambda>a. length a = 3) anchors"
  by (auto simp: create_fiber_def split: if_splits)

lemma translate_fiber_Inr:
  assumes "translate_fiber fiber bbox translation = Inr ((new_bbox, new_fiber), s)"
  shows "list_all2 (\<lambda>a v. np_add a translation = Inr v) (get_anchors fiber) (get_anchors new_fiber)"
    and "list_all2 (\<lambda>a v. np_add a translation = Inr v) bbox new_bbox"
    and "v_fiber s = fiber" and "v_bbox s = bbox" and "v_translation s = translation"
    and "get_radius new_fiber = get_radius fiber"
    and "get_symmetry new_fiber = get_symmetry fiber"
    and "get_sampling new_fiber = get_sampling fiber"
proof -
  let ?s0 = "\<lparr>v_fiber = fiber, v_bbox = bbox, v_translation = translation,
                v_t_anchors = [], v_t_bbox = []\<rparr>"
  from assms obtain s1 s2 where
    l1: "anchors_loop (get_anchors fiber) ?s0 = Inr s1"
    and l2: "(if length (v_bbox s1) > 0 then bbox_loop (v_bbox s1) s1 else Inr s1) = Inr s2"
    and cf: "create_fiber (get_radius (v_fiber s2)) (get_symmetry (v_fiber s2))
                          (get_sampling (v_fiber s2)) (v_t_anchors s2) = Inr new_fiber"
    and ret: "new_bbox = v_t_bbox s2" "s = s2"
    by (auto simp: translate_fiber_def Let_def split: sum.splits)
  from anchors_loop_Inr [OF l1] obtain vs where
    s1: "s1 = ?s0\<lparr>v_t_anchors := vs\<rparr>"
    and vs: "list_all2 (\<lambda>a v. np_add a translation = Inr v) (get_anchors fiber) vs"
    by auto
  have "\<exists>ws. s2 = s1\<lparr>v_t_bbox := ws\<rparr> \<and> list_all2 (\<lambda>a v. np_add a translation = Inr v) bbox ws"
  proof (cases "length (v_bbox s1) > 0")
    case True
    with l2 have "bbox_loop (v_bbox s1) s1 = Inr s2" by simp
    from bbox_loop_Inr [OF this] show ?thesis using s1 by auto
  next
    case False
    with l2 s1 show ?thesis by auto
  qed
  then obtain ws where s2: "s2 = s1\<lparr>v_t_bbox := ws\<rparr>"
    and ws: "list_all2 (\<lambda>a v. np_add a translation = Inr v) bbox ws" by blast
  from create_fiber_Inr [OF cf] have nf: "get_anchors new_fiber = vs"
    "get_radius new_fiber = get_radius fiber"
    "get_symmetry new_fiber = get_symmetry fiber"
    "get_sampling new_fiber = get_sampling fiber"
    using s1 s2 by auto
  show "list_all2 (\<lambda>a v. np_add a translation = Inr v) (get_anchors fiber) (get_anchors new_fiber)"
    using vs nf by simp
  show "list_all2 (\<lambda>a v. np_add a translation = Inr v) bbox new_bbox"
    using ws ret s2 by simp
  show "v_fiber s = fiber" "v_bbox s = bbox" "v_translation s = translation"
    using ret s1 s2 by simp_all
  show "get_radius new_fiber = get_radius fiber"
    "get_symmetry new_fiber = get_symmetry fiber"
    "get_sampling new_fiber = get_sampling fiber" using nf by simp_all
qed

lemma translate_fiber_well_formed:
  assumes wf: "well_formed fiber bbox translation"
  shows "translate_fiber fiber bbox translation =
     Inr ((map (\<lambda>pt. map2 (+) pt translation) bbox,
           fiber\<lparr>get_anchors := map (\<lambda>a. map2 (+) a translation) (get_anchors fiber)\<rparr>),
          \<lparr>v_fiber = fiber, v_bbox = bbox, v_translation = translation,
           v_t_anchors = map (\<lambda>a. map2 (+) a translation) (get_anchors fiber),
           v_t_bbox = map (\<lambda>pt. map2 (+) pt translation) bbox\<rparr>)"
proof -
  let ?s0 = "\<lparr>v_fiber = fiber, v_bbox = bbox, v_translation = translation,
                v_t_anchors = [], v_t_bbox = []\<rparr>"
  let ?ta = "map (\<lambda>a. map2 (+) a translation) (get_anchors fiber)"
  let ?tb = "map (\<lambda>pt. map2 (+) pt translation) bbox"
  from wf have cf: "create_fiber (get_radius fiber) (get_symmetry fiber) (get_sampling fiber)
         (get_anchors fiber) = Inr fiber"
    and bb: "list_all (\<lambda>pt. length pt = 3) bbox" and t3: "length translation = 3"
    by (simp_all add: well_formed_def)
  from create_fiber_Inr [OF cf] have valid: "0 < get_radius fiber" "1 \<le> get_symmetry fiber"
    "1 \<le> get_sampling fiber" "get_anchors fiber \<noteq> []"
    "list_all (\<lambda>a. length a = 3) (get_anchors fiber)" by simp_all
  let ?s1 = "\<lparr>v_fiber = fiber, v_bbox = bbox, v_translation = translation,
                v_t_anchors = ?ta, v_t_bbox = []\<rparr>"
  let ?s2 = "\<lparr>v_fiber = fiber, v_bbox = bbox, v_translation = translation,
                v_t_anchors = ?ta, v_t_bbox = ?tb\<rparr>"
  have l1: "anchors_loop (get_anchors fiber) ?s0 = Inr ?s1"
    using anchors_loop_same_length [of ?s0 "get_anchors fiber"] valid(5) t3 by simp
  have l2: "bbox_loop bbox ?s1 = Inr ?s2"
    using bbox_loop_same_length [of ?s1 bbox] bb t3 by simp
  have l2': "(if 0 < length bbox then bbox_loop bbox ?s1 else Inr ?s1) = Inr ?s2"
    using l2 by (cases bbox) simp_all
  have l3: "create_fiber (get_radius fiber) (get_symmetry fiber) (get_sampling fiber) ?ta
            = Inr (fiber\<lparr>get_anchors := ?ta\<rparr>)"
    using valid t3 by (simp add: create_fiber_def list_all_iff)
  show ?thesis
    unfolding translate_fiber_def Let_def
    by (simp only: l1 l2' l3 sum.case frame.simps)
qed


lemma rotate_points_Inr:
  "rotate_points plane angle pivot pts = Inr vs \<Longrightarrow>
     list_all2 (\<lambda>a v. rotate_point plane angle pivot a = Inr v) pts vs"
  by (induction pts arbitrary: vs) (auto split: sum.splits)

lemma rotate_fiber_Inr:
  assumes "rotate_fiber fiber bbox rotation pivot extra = Inr (new_bbox, new_fiber)"
  shows "list_all2 (\<lambda>a v. rotate_point (fst rotation) (snd rotation) pivot a = Inr v)
           (get_anchors fiber) (get_anchors new_fiber)"
proof -
  from assms obtain new_anchors where
    ra: "rotate_points (fst rotation) (snd rotation) pivot (get_anchors fiber) = Inr new_anchors"
    and cf: "create_fiber (get_radius fiber) (get_symmetry fiber) (get_sampling fiber)
               new_anchors = Inr new_fiber"
    by (auto simp: rotate_fiber_def split: sum.splits)
  from create_fiber_Inr [OF cf] have "get_anchors new_fiber = new_anchors" by simp
  with rotate_points_Inr [OF ra] show ?thesis by simp
qed

text \<open>
  Claim C6. Whenever \<^verbatim>\<open>translate_fiber\<close> or \<^verbatim>\<open>rotate_fiber\<close> returns a fiber, that
  fiber has as many anchors as the input fiber, and its anchor at each index is the
  transform of the input's anchor at the same index (translation from the source,
  rotation as the spec describes it).
\<close>

theorem transforms_keep_anchors:
  "(translate_fiber fiber bbox translation = Inr ((new_bbox, new_fiber), s) \<longrightarrow>
      length (get_anchors new_fiber) = length (get_anchors fiber)
      \<and> (\<forall>i < length (get_anchors fiber).
            np_add (get_anchors fiber ! i) translation = Inr (get_anchors new_fiber ! i)))
   \<and> (rotate_fiber rfiber rbbox rotation pivot extra = Inr (rnew_bbox, rnew_fiber) \<longrightarrow>
      length (get_anchors rnew_fiber) = length (get_anchors rfiber)
      \<and> (\<forall>i < length (get_anchors rfiber).
            rotate_point (fst rotation) (snd rotation) pivot (get_anchors rfiber ! i)
              = Inr (get_anchors rnew_fiber ! i)))"
proof (intro conjI impI)
  assume t: "translate_fiber fiber bbox translation = Inr ((new_bbox, new_fiber), s)"
  note all = translate_fiber_Inr(1) [OF t]
  show "length (get_anchors new_fiber) = length (get_anchors fiber)"
    using all by (simp add: list_all2_lengthD)
  show "\<forall>i < length (get_anchors fiber).
            np_add (get_anchors fiber ! i) translation = Inr (get_anchors new_fiber ! i)"
    using all by (simp add: list_all2_conv_all_nth)
next
  assume r: "rotate_fiber rfiber rbbox rotation pivot extra = Inr (rnew_bbox, rnew_fiber)"
  note all = rotate_fiber_Inr [OF r]
  show "length (get_anchors rnew_fiber) = length (get_anchors rfiber)"
    using all by (simp add: list_all2_lengthD)
  show "\<forall>i < length (get_anchors rfiber).
            rotate_point (fst rotation) (snd rotation) pivot (get_anchors rfiber ! i)
              = Inr (get_anchors rnew_fiber ! i)"
    using all by (simp add: list_all2_conv_all_nth)
qed

theorem transforms_keep_anchors_witness:
  "translate_fiber
       \<lparr>get_radius = 4::int, get_symmetry = 1, get_sampling = 30,
        get_anchors = [[0, 0, 0], [1, 2, 3]]\<rparr> [] [10, 20, 30]
     = Inr (([], \<lparr>get_radius = 4, get_symmetry = 1, get_sampling = 30,
                  get_anchors = [[10, 20, 30], [11, 22, 33]]\<rparr>),
            \<lparr>v_fiber = \<lparr>get_radius = 4, get_symmetry = 1, get_sampling = 30,
                        get_anchors = [[0, 0, 0], [1, 2, 3]]\<rparr>,
             v_bbox = [], v_translation = [10, 20, 30],
             v_t_anchors = [[10, 20, 30], [11, 22, 33]], v_t_bbox = []\<rparr>)
   \<and> length [[10, 20, 30], [11, 22, 33 :: int]] = length [[0, 0, 0], [1, 2, 3 :: int]]
   \<and> np_add [0, 0, 0] [10, 20, 30] = Inr [10, 20, 30 :: int]
   \<and> np_add [1, 2, 3] [10, 20, 30] = Inr [11, 22, 33 :: int]
   \<and> rotate_fiber
       \<lparr>get_radius = 4, get_symmetry = 1, get_sampling = 30,
        get_anchors = [[0, 0, 0], [1, 2, 3]]\<rparr> [] (YZ, pi) [0, 0, 0] ()
     = Inr ([], \<lparr>get_radius = 4, get_symmetry = 1, get_sampling = 30,
                 get_anchors = [[0, 0, 0], [1, -2, -3]]\<rparr>)
   \<and> length [[0, 0, 0], [1, -2, -3 :: real]] = length [[0, 0, 0], [1, 2, 3 :: real]]
   \<and> rotate_point YZ pi [0, 0, 0] [0, 0, 0] = Inr [0, 0, 0]
   \<and> rotate_point YZ pi [0, 0, 0] [1, 2, 3] = Inr [1, -2, -3]"
proof -
  let ?f = "\<lparr>get_radius = 4::int, get_symmetry = 1, get_sampling = 30,
        get_anchors = [[0, 0, 0], [1, 2, 3]]\<rparr>"
  let ?f' = "\<lparr>get_radius = 4::int, get_symmetry = 1, get_sampling = 30,
                  get_anchors = [[10, 20, 30], [11, 22, 33]]\<rparr>"
  let ?s = "\<lparr>v_fiber = ?f, v_bbox = [], v_translation = [10, 20, 30],
             v_t_anchors = [[10, 20, 30], [11, 22, 33]], v_t_bbox = []\<rparr>"
  let ?r = "\<lparr>get_radius = 4::real, get_symmetry = 1, get_sampling = 30,
        get_anchors = [[0, 0, 0], [1, 2, 3]]\<rparr>"
  let ?r' = "\<lparr>get_radius = 4::real, get_symmetry = 1, get_sampling = 30,
                 get_anchors = [[0, 0, 0], [1, -2, -3]]\<rparr>"
  have t: "translate_fiber ?f [] [10, 20, 30] = Inr (([], ?f'), ?s)"
    by (simp add: translate_fiber_def np_add_def create_fiber_def)
  have r: "rotate_fiber ?r [] (YZ, pi) [0, 0, 0] () = Inr ([], ?r')"
    by (simp add: rotate_fiber_def create_fiber_def)
  from transforms_keep_anchors
         [of ?f "[]" "[10, 20, 30]" "[]" ?f' ?s ?r "[]" "(YZ, pi)" "[0, 0, 0]" "()" "[]" ?r']
  have "length (get_anchors ?f') = length (get_anchors ?f)
      \<and> length (get_anchors ?r') = length (get_anchors ?r)"
    using t r by simp
  with t r show ?thesis by (simp add: np_add_def)
qed

text \<open>
  Claim C7. On well-formed input \<^verbatim>\<open>translate_fiber\<close> does not raise; it returns the
  pair \<open>(new_bbox, new_fiber)\<close>, where every anchor of \<open>new_fiber\<close> and every point of
  \<open>new_bbox\<close> is the input's plus the translation, coordinate by coordinate, the other
  fields of the fiber are carried over, and the variables \<^verbatim>\<open>fiber\<close> and \<^verbatim>\<open>bbox\<close>
  hold at the return what they were given.
\<close>

theorem translate_fiber_adds_translation:
  assumes wf: "well_formed fiber bbox translation"
  shows "\<exists>new_bbox new_fiber s.
      translate_fiber fiber bbox translation = Inr ((new_bbox, new_fiber), s)
    \<and> get_anchors new_fiber = map (\<lambda>a. map2 (+) a translation) (get_anchors fiber)
    \<and> new_bbox = map (\<lambda>pt. map2 (+) pt translation) bbox
    \<and> (\<forall>i < length (get_anchors fiber). \<forall>k < 3.
          get_anchors new_fiber ! i ! k = get_anchors fiber ! i ! k + translation ! k)
    \<and> (\<forall>i < length bbox. \<forall>k < 3. new_bbox ! i ! k = bbox ! i ! k + translation ! k)
    \<and> get_radius new_fiber = get_radius fiber
    \<and> get_symmetry new_fiber = get_symmetry fiber
    \<and> get_sampling new_fiber = get_sampling fiber
    \<and> v_fiber s = fiber \<and> v_bbox s = bbox"
proof -
  from wf have cf: "create_fiber (get_radius fiber) (get_symmetry fiber) (get_sampling fiber)
         (get_anchors fiber) = Inr fiber"
    and bb: "list_all (\<lambda>pt. length pt = 3) bbox" and t3: "length translation = 3"
    by (simp_all add: well_formed_def)
  from create_fiber_Inr [OF cf] have a3: "list_all (\<lambda>a. length a = 3) (get_anchors fiber)"
    by simp
  have nth_a: "\<forall>i < length (get_anchors fiber). \<forall>k < 3.
      map (\<lambda>a. map2 (+) a translation) (get_anchors fiber) ! i ! k
        = get_anchors fiber ! i ! k + translation ! k"
    using a3 t3 by (simp add: list_all_length)
  have nth_b: "\<forall>i < length bbox. \<forall>k < 3.
      map (\<lambda>pt. map2 (+) pt translation) bbox ! i ! k = bbox ! i ! k + translation ! k"
    using bb t3 by (simp add: list_all_length)
  show ?thesis
    using translate_fiber_well_formed [OF wf] nth_a nth_b by simp
qed

theorem translate_fiber_adds_translation_witness:
  "well_formed
       \<lparr>get_radius = 4::int, get_symmetry = 1, get_sampling = 30,
        get_anchors = [[0, 0, 0], [1, 2, 3]]\<rparr> [[0, 0, 0], [1, 1, 1]] [10, 20, 30]
   \<and> translate_fiber
       \<lparr>get_radius = 4::int, get_symmetry = 1, get_sampling = 30,
        get_anchors = [[0, 0, 0], [1, 2, 3]]\<rparr> [[0, 0, 0], [1, 1, 1]] [10, 20, 30]
     = Inr (([[10, 20, 30], [11, 21, 31]],
             \<lparr>get_radius = 4, get_symmetry = 1, get_sampling = 30,
              get_anchors = [[10, 20, 30], [11, 22, 33]]\<rparr>),
            \<lparr>v_fiber = \<lparr>get_radius = 4, get_symmetry = 1, get_sampling = 30,
                        get_anchors = [[0, 0, 0], [1, 2, 3]]\<rparr>,
             v_bbox = [[0, 0, 0], [1, 1, 1]], v_translation = [10, 20, 30],
             v_t_anchors = [[10, 20, 30], [11, 22, 33]],
             v_t_bbox = [[10, 20, 30], [11, 21, 31]]\<rparr>)"
proof -
  let ?f = "\<lparr>get_radius = 4::int, get_symmetry = 1, get_sampling = 30,
        get_anchors = [[0, 0, 0], [1, 2, 3]]\<rparr>"
  have wf: "well_formed ?f [[0, 0, 0], [1, 1, 1]] [10, 20, 30]"
    by (simp add: well_formed_def create_fiber_def)
  from translate_fiber_adds_translation [OF wf]
  obtain new_bbox new_fiber s where
    "translate_fiber ?f [[0, 0, 0], [1, 1, 1]] [10, 20, 30] = Inr ((new_bbox, new_fiber), s)"
    by blast
  moreover have "translate_fiber ?f [[0, 0, 0], [1, 1, 1]] [10, 20, 30] =
      Inr (([[10, 20, 30], [11, 21, 31]],
             \<lparr>get_radius = 4, get_symmetry = 1, get_sampling = 30,
              get_anchors = [[10, 20, 30], [11, 22, 33]]\<rparr>),
            \<lparr>v_fiber = ?f,
             v_bbox = [[0, 0, 0], [1, 1, 1]], v_translation = [10, 20, 30],
             v_t_anchors = [[10, 20, 30], [11, 22, 33]],
             v_t_bbox = [[10, 20, 30], [11, 21, 31]]\<rparr>)"
    by (simp add: translate_fiber_def np_add_def create_fiber_def)
  ultimately show ?thesis using wf by simp
qed

section \<open>Properties of the geometry handler\<close>

lemma digit_of_char:
  assumes "d < 10" shows "of_char (''0123456789'' ! d) = 48 + d"
proof -
  from assms have "d = 0 \<or> d = 1 \<or> d = 2 \<or> d = 3 \<or> d = 4 \<or> d = 5 \<or> d = 6
    \<or> d = 7 \<or> d = 8 \<or> d = 9" by arith
  then show ?thesis by (elim disjE) simp_all
qed

lemma str_nat_inverse:
  "foldl (\<lambda>acc c. 10 * acc + (of_char c - 48)) 0 (str_nat n) = n"
proof (induction n rule: str_nat.induct)
  case (1 n)
  show ?case
  proof (cases "n < 10")
    case True
    then show ?thesis by (simp add: str_nat.simps [of n] digit_of_char)
  next
    case False
    have "n mod 10 < 10" by simp
    then have d: "of_char (''0123456789'' ! (n mod 10)) = 48 + n mod 10"
      by (rule digit_of_char)
    from False "1.IH" have
      "foldl (\<lambda>acc c. 10 * acc + (of_char c - 48)) 0 (str_nat (n div 10)) = n div 10"
      by simp
    with False d show ?thesis
      by (simp add: str_nat.simps [of n])
  qed
qed

lemma str_nat_inj:
  assumes "str_nat i = str_nat j"
  shows "i = j"
proof -
  have "i = foldl (\<lambda>acc c. 10 * acc + (of_char c - 48)) 0 (str_nat i)"
    by (simp only: str_nat_inverse)
  also have "\<dots> = foldl (\<lambda>acc c. 10 * acc + (of_char c - 48)) 0 (str_nat j)"
    by (simp only: assms)
  also have "\<dots> = j"
    by (simp only: str_nat_inverse)
  finally show ?thesis .
qed

lemma path_join_nonempty:
  "b \<noteq> [] \<Longrightarrow> path_join a b = (if hd b = CHR ''/'' then [] else if a = [] \<or> last a = CHR ''/'' then a else a @ ''/'') @ b"
  by (simp add: path_join_def)

lemma path_join_last: "b \<noteq> [] \<Longrightarrow> last (path_join a b) = last b"
  by (simp add: path_join_def)

lemma spline_path_inj:
  assumes "spline_path naming sp i = spline_path naming sp j"
  shows "i = j"
proof -
  let ?b = "\<lambda>k. naming @ ''_f_'' @ str_nat k @ ''.vspl''"
  have hd_eq: "hd (?b i) = hd (?b j)" by (cases naming) simp_all
  have ne: "?b i \<noteq> []" "?b j \<noteq> []" by simp_all
  from assms have "path_join sp (?b i) = path_join sp (?b j)"
    by (simp add: spline_path_def)
  then have "?b i = ?b j"
    unfolding path_join_nonempty [OF ne(1)] path_join_nonempty [OF ne(2)] hd_eq
    by (simp only: same_append_eq)
  then have "str_nat i = str_nat j" by simp
  then show ?thesis by (rule str_nat_inj)
qed

lemma base_path_not_spline: "base_path naming sp \<noteq> spline_path naming sp i"
proof
  assume "base_path naming sp = spline_path naming sp i"
  then have "last (base_path naming sp) = last (spline_path naming sp i)" by simp
  then show False
    by (simp add: base_path_def spline_path_def path_join_last)
qed


lemma bundle_bases_in_range:
  "set idxs \<subseteq> {..<length (p_bundles h)} \<Longrightarrow>
     bundle_bases h idxs =
       Inr (map (\<lambda>i. BundleObject [] [''f_'' @ str_nat i] [1]
                        (get_bundle_center (p_bundles h ! i))) idxs)"
  by (induction idxs) (simp_all add: generate_bundle_base_def create_bundle_object_def)

lemma structures_eq:
  "structures h =
     Inr (map (\<lambda>i. BundleObject [] [''f_'' @ str_nat i] [1]
                      (get_bundle_center (p_bundles h ! i))) [0..<length (p_bundles h)]
          @ map SphereEntry (p_spheres h))"
proof -
  have "set [0..<length (p_bundles h)] \<subseteq> {..<length (p_bundles h)}" by auto
  from bundle_bases_in_range [OF this] show ?thesis
    by (simp add: structures_def get_number_of_bundles_def)
qed

lemma world_entry_eq:
  "world_entry h = Inr \<lparr>dimension = int (length (p_resolution h)), resolution = p_resolution h\<rparr>"
  by (simp add: world_entry_def create_world_def get_resolution_def)

lemma fold_upd_other:
  "p \<notin> f ` set idxs \<Longrightarrow> fold (\<lambda>i m. m(f i \<mapsto> g i)) idxs m p = m p"
  by (induction idxs arbitrary: m) auto

lemma fold_upd_hit:
  "inj_on f (set idxs) \<Longrightarrow> i \<in> set idxs \<Longrightarrow>
     fold (\<lambda>i m. m(f i \<mapsto> g i)) idxs m (f i) = Some (g i)"
proof (induction idxs arbitrary: m)
  case Nil
  then show ?case by simp
next
  case (Cons k idxs)
  have inj: "inj_on f (set idxs)" using Cons.prems(1) by (simp add: inj_on_def)
  show ?case
  proof (cases "i \<in> set idxs")
    case True
    from Cons.IH [OF inj True] show ?thesis by simp
  next
    case False
    with Cons.prems(2) have ik: "i = k" by simp
    have "f i \<notin> f ` set idxs"
    proof
      assume "f i \<in> f ` set idxs"
      then obtain j where j: "j \<in> set idxs" "f i = f j" by auto
      with Cons.prems(1) ik have "i = j" by (auto simp: inj_on_def)
      with j False show False by simp
    qed
    then have "fold (\<lambda>i m. m(f i \<mapsto> g i)) idxs (m(f k \<mapsto> g k)) (f i)
                 = (m(f k \<mapsto> g k)) (f i)"
      by (rule fold_upd_other)
    also have "\<dots> = Some (g i)" using ik by simp
    finally show ?thesis by (simp only: fold_Cons comp_apply)
  qed
qed

lemma write_splines_Inr:
  "write_splines h naming sp idxs s = Inr s' \<Longrightarrow>
     files s' = fold (\<lambda>i m. m(spline_path naming sp i \<mapsto> serialize (p_bundles h ! i)))
                  idxs (files s)
     \<and> opened s' = opened s @ map (spline_path naming sp) idxs"
proof (induction idxs arbitrary: s)
  case Nil
  then show ?case by simp
next
  case (Cons k idxs)
  let ?p = "spline_path naming sp k"
  let ?s1 = "s\<lparr>present := insert ?p (present s), files := (files s)(?p \<mapsto> []),
                opened := opened s @ [?p]\<rparr>"
  from Cons.prems have ok: "?p \<notin> open_refused s" and k: "k < length (p_bundles h)"
    by (auto simp: open_w_def split: if_splits sum.splits)
  with Cons.prems have rest:
    "write_splines h naming sp idxs (write_text ?s1 ?p (serialize (p_bundles h ! k))) = Inr s'"
    by (simp add: open_w_def)
  from Cons.IH [OF rest] show ?case
    by (simp add: write_text_def)
qed

lemma generate_Inr:
  assumes "generate_json_configuration_files orm h naming sp s = Inr s'"
  shows "files s' =
           fold (\<lambda>i m. m(spline_path naming sp i \<mapsto> serialize (p_bundles h ! i)))
             [0..<length (p_bundles h)]
             ((files s)(base_path naming sp \<mapsto>
                base_text orm
                  \<lparr>dimension = int (length (p_resolution h)), resolution = p_resolution h\<rparr> sp
                  (map (\<lambda>i. BundleObject [] [''f_'' @ str_nat i] [1]
                                (get_bundle_center (p_bundles h ! i)))
                     [0..<length (p_bundles h)]
                   @ map SphereEntry (p_spheres h))))"
    and "opened s' =
           opened s @ base_path naming sp # map (spline_path naming sp) [0..<length (p_bundles h)]"
proof -
  let ?w = "\<lparr>dimension = int (length (p_resolution h)), resolution = p_resolution h\<rparr>"
  let ?st = "map (\<lambda>i. BundleObject [] [''f_'' @ str_nat i] [1]
                                (get_bundle_center (p_bundles h ! i)))
                     [0..<length (p_bundles h)]
                   @ map SphereEntry (p_spheres h)"
  let ?b = "base_path naming sp"
  from assms obtain s1 s2 where
    d: "(if \<not> path_exists s sp then makedirs s sp else Inr s) = Inr s1"
    and o: "open_w s1 ?b = Inr s2"
    and w: "write_splines h naming sp [0..<length (p_bundles h)]
              (write_text s2 ?b (base_text orm ?w sp ?st)) = Inr s'"
    by (auto simp: generate_json_configuration_files_def world_entry_eq structures_eq
             split: sum.splits)
  from d have s1: "files s1 = files s" "opened s1 = opened s"
    by (auto simp: makedirs_def split: if_splits)
  from o have s2: "files s2 = (files s1)(?b \<mapsto> [])" "opened s2 = opened s1 @ [?b]"
    by (auto simp: open_w_def split: if_splits)
  from write_splines_Inr [OF w] s1 s2
  show "files s' =
           fold (\<lambda>i m. m(spline_path naming sp i \<mapsto> serialize (p_bundles h ! i)))
             [0..<length (p_bundles h)] ((files s)(?b \<mapsto> base_text orm ?w sp ?st))"
    and "opened s' = opened s @ ?b # map (spline_path naming sp) [0..<length (p_bundles h)]"
    by (simp_all add: write_text_def)
qed

lemma spline_path_inj_on: "inj_on (spline_path naming sp) A"
  by (rule inj_onI) (rule spline_path_inj)

lemma generate_base_file:
  assumes "generate_json_configuration_files orm h naming sp s = Inr s'"
  shows "files s' (base_path naming sp) =
           Some (base_text orm
                  \<lparr>dimension = int (length (p_resolution h)), resolution = p_resolution h\<rparr> sp
                  (map (\<lambda>i. BundleObject [] [''f_'' @ str_nat i] [1]
                                (get_bundle_center (p_bundles h ! i)))
                     [0..<length (p_bundles h)]
                   @ map SphereEntry (p_spheres h)))"
    (is "_ = Some ?text")
proof -
  let ?upd = "\<lambda>i m. m(spline_path naming sp i \<mapsto> serialize (p_bundles h ! i))"
  let ?m = "(files s)(base_path naming sp \<mapsto> ?text)"
  have notin: "base_path naming sp \<notin> spline_path naming sp ` set [0..<length (p_bundles h)]"
    using base_path_not_spline by blast
  have "files s' (base_path naming sp)
          = fold ?upd [0..<length (p_bundles h)] ?m (base_path naming sp)"
    by (simp only: generate_Inr(1) [OF assms])
  also have "\<dots> = ?m (base_path naming sp)"
    using notin by (rule fold_upd_other)
  also have "\<dots> = Some ?text" by simp
  finally show ?thesis .
qed

lemma generate_spline_file:
  assumes "generate_json_configuration_files orm h naming sp s = Inr s'"
    and "i < length (p_bundles h)"
  shows "files s' (spline_path naming sp i) = Some (serialize (p_bundles h ! i))"
proof -
  let ?upd = "\<lambda>i m. m(spline_path naming sp i \<mapsto> serialize (p_bundles h ! i))"
  have i: "i \<in> set [0..<length (p_bundles h)]" using assms(2) by simp
  have "files s' (spline_path naming sp i)
          = fold ?upd [0..<length (p_bundles h)]
              ((files s)(base_path naming sp \<mapsto>
                base_text orm
                  \<lparr>dimension = int (length (p_resolution h)), resolution = p_resolution h\<rparr> sp
                  (map (\<lambda>i. BundleObject [] [''f_'' @ str_nat i] [1]
                                (get_bundle_center (p_bundles h ! i)))
                     [0..<length (p_bundles h)]
                   @ map SphereEntry (p_spheres h)))) (spline_path naming sp i)"
    by (simp only: generate_Inr(1) [OF assms(1)])
  also have "\<dots> = Some (serialize (p_bundles h ! i))"
    using spline_path_inj_on i by (rule fold_upd_hit)
  finally show ?thesis .
qed

lemma generate_other_file:
  assumes "generate_json_configuration_files orm h naming sp s = Inr s'"
    and "p \<noteq> base_path naming sp"
    and "p \<notin> spline_path naming sp ` set [0..<length (p_bundles h)]"
  shows "files s' p = files s p"
proof -
  let ?upd = "\<lambda>i m. m(spline_path naming sp i \<mapsto> serialize (p_bundles h ! i))"
  let ?m = "(files s)(base_path naming sp \<mapsto>
                base_text orm
                  \<lparr>dimension = int (length (p_resolution h)), resolution = p_resolution h\<rparr> sp
                  (map (\<lambda>i. BundleObject [] [''f_'' @ str_nat i] [1]
                                (get_bundle_center (p_bundles h ! i)))
                     [0..<length (p_bundles h)]
                   @ map SphereEntry (p_spheres h)))"
  have "files s' p = fold ?upd [0..<length (p_bundles h)] ?m p"
    by (simp only: generate_Inr(1) [OF assms(1)])
  also have "\<dots> = ?m p"
    using assms(3) by (rule fold_upd_other)
  also have "\<dots> = files s p" using assms(2) by simp
  finally show ?thesis .
qed

text \<open>
  The generation returns whenever the output directory is named, the system lets it be
  created and refuses no file.
\<close>

lemma write_splines_succeeds:
  "open_refused s = {} \<Longrightarrow> set idxs \<subseteq> {..<length (p_bundles h)} \<Longrightarrow>
     \<exists>s'. write_splines h naming sp idxs s = Inr s'"
proof (induction idxs arbitrary: s)
  case Nil
  then show ?case by simp
next
  case (Cons k idxs)
  let ?p = "spline_path naming sp k"
  let ?s1 = "s\<lparr>present := insert ?p (present s), files := (files s)(?p \<mapsto> []),
                opened := opened s @ [?p]\<rparr>"
  have o: "open_w s ?p = Inr ?s1" using Cons.prems(1) by (simp add: open_w_def)
  have r: "open_refused (write_text ?s1 ?p (serialize (p_bundles h ! k))) = {}"
    using Cons.prems(1) by (simp add: write_text_def)
  from Cons.prems(2) have k: "k < length (p_bundles h)"
    and sub: "set idxs \<subseteq> {..<length (p_bundles h)}" by simp_all
  from Cons.IH [OF r sub] obtain s' where
    "write_splines h naming sp idxs (write_text ?s1 ?p (serialize (p_bundles h ! k))) = Inr s'"
    by blast
  with o k show ?case by simp
qed

lemma generate_succeeds:
  assumes "sp \<noteq> []" and "sp \<notin> mkdir_refused s" and "open_refused s = {}"
  shows "\<exists>s'. generate_json_configuration_files orm h naming sp s = Inr s'"
proof -
  let ?b = "base_path naming sp"
  obtain s1 where d: "(if \<not> path_exists s sp then makedirs s sp else Inr s) = Inr s1"
    and r1: "open_refused s1 = {}"
    using assms by (cases "sp \<in> present s") (simp_all add: path_exists_def makedirs_def)
  let ?s2 = "s1\<lparr>present := insert ?b (present s1), files := (files s1)(?b \<mapsto> []),
                 opened := opened s1 @ [?b]\<rparr>"
  have o: "open_w s1 ?b = Inr ?s2" using r1 by (simp add: open_w_def)
  let ?s3 = "write_text ?s2 ?b
               (base_text orm
                  \<lparr>dimension = int (length (p_resolution h)), resolution = p_resolution h\<rparr> sp
                  (map (\<lambda>i. BundleObject [] [''f_'' @ str_nat i] [1]
                                (get_bundle_center (p_bundles h ! i)))
                     [0..<length (p_bundles h)]
                   @ map SphereEntry (p_spheres h)))"
  have r3: "open_refused ?s3 = {}" using r1 by (simp add: write_text_def)
  have "set [0..<length (p_bundles h)] \<subseteq> {..<length (p_bundles h)}" by auto
  from write_splines_succeeds [OF r3 this] obtain s' where
    "write_splines h naming sp [0..<length (p_bundles h)] ?s3 = Inr s'" by blast
  with d o show ?thesis
    unfolding generate_json_configuration_files_def
    by (simp only: world_entry_eq structures_eq sum.case) blast
qed

text \<open>
  The decimal rendering has digits only, no leading zero, and reads back as the index;
  \<^verbatim>\<open>join\<close> puts the separator after every part but the last.
\<close>

lemma str_join_concat:
  "str_join sep xs =
     (if xs = [] then [] else concat (map (\<lambda>x. x @ sep) (butlast xs)) @ last xs)"
  by (induction sep xs rule: str_join.induct) simp_all

lemma str_nat_nonempty: "str_nat n \<noteq> []"
  by (subst str_nat.simps) simp

lemma str_nat_digits: "set (str_nat n) \<subseteq> set ''0123456789''"
proof (induction n rule: str_nat.induct)
  case (1 n)
  have d: "''0123456789'' ! k \<in> set ''0123456789''" if "k < 10" for k
    using that by (intro nth_mem) simp
  show ?case
  proof (cases "n < 10")
    case True
    with d [of n] show ?thesis by (subst str_nat.simps) simp
  next
    case False
    have "n mod 10 < 10" by simp
    from d [OF this] "1.IH" False show ?thesis
      by (subst str_nat.simps) simp
  qed
qed

lemma str_nat_no_leading_zero: "n \<noteq> 0 \<Longrightarrow> hd (str_nat n) \<noteq> CHR ''0''"
proof (induction n rule: str_nat.induct)
  case (1 n)
  show ?case
  proof (cases "n < 10")
    case True
    from digit_of_char [OF True] "1.prems"
    have "of_char (''0123456789'' ! n) \<noteq> (48::nat)" by simp
    then have "''0123456789'' ! n \<noteq> CHR ''0''" by auto
    with True show ?thesis by (subst str_nat.simps) simp
  next
    case False
    then have "n div 10 \<noteq> 0" by simp
    with "1.IH" False have "hd (str_nat (n div 10)) \<noteq> CHR ''0''" by simp
    with False str_nat_nonempty [of "n div 10"] show ?thesis
      by (subst str_nat.simps) simp
  qed
qed

text \<open>The text of the geometry document after a successful generation, written out.\<close>

lemma generate_document_text:
  assumes "generate_json_configuration_files orm h naming sp s = Inr s'"
  shows "files s' (path_join sp (naming @ ''_geometry_base.json'')) =
     Some (''{\<newline>'' @
           ''    \"world\": '' @
             world_serialize orm 6
               \<lparr>dimension = int (length (p_resolution h)), resolution = p_resolution h\<rparr> @
             '',\<newline>'' @
           ''    \"path\": \"'' @ sp @ ''\"'' @ '',\<newline>'' @
           ''    \"structures\": [\<newline>'' @ ''      '' @
             str_join '',\<newline>''
               (map (structure_serialize orm 8)
                  (map (\<lambda>i. BundleObject [] [''f_'' @ str_nat i] [1]
                                (get_bundle_center (p_bundles h ! i)))
                     [0..<length (p_bundles h)]
                   @ map SphereEntry (p_spheres h))) @
             ''\<newline>    ]\<newline>'' @
           ''}'')"
  using generate_base_file [OF assms] by (simp add: base_text_def base_path_def)

lemma generate_document_entries:
  assumes "generate_json_configuration_files orm h naming sp s = Inr s'"
    and "structures h = Inr structs"
  shows "files s' (path_join sp (naming @ ''_geometry_base.json'')) =
     Some (''{\<newline>'' @
           ''    \"world\": '' @
             world_serialize orm 6
               \<lparr>dimension = int (length (get_resolution h)), resolution = get_resolution h\<rparr> @
             '',\<newline>'' @
           ''    \"path\": \"'' @ sp @ ''\"'' @ '',\<newline>'' @
           ''    \"structures\": [\<newline>'' @ ''      '' @
             (if structs = [] then []
              else concat (map (\<lambda>e. structure_serialize orm 8 e @ '',\<newline>'') (butlast structs))
                   @ structure_serialize orm 8 (last structs)) @
             ''\<newline>    ]\<newline>'' @
           ''}'')"
proof -
  from assms(2) have st: "structs =
      map (\<lambda>i. BundleObject [] [''f_'' @ str_nat i] [1] (get_bundle_center (p_bundles h ! i)))
          [0..<length (p_bundles h)] @ map SphereEntry (p_spheres h)"
    by (simp add: structures_eq)
  have j: "str_join '',\<newline>'' (map (structure_serialize orm 8) structs) =
      (if structs = [] then []
       else concat (map (\<lambda>e. structure_serialize orm 8 e @ '',\<newline>'') (butlast structs))
            @ structure_serialize orm 8 (last structs))"
    by (simp add: str_join_concat map_butlast [symmetric] last_map comp_def)
  from generate_document_text [OF assms(1)] show ?thesis
    unfolding st [symmetric] j get_resolution_def .
qed

lemmas example_defs = generate_json_configuration_files_def path_exists_def makedirs_def open_w_def
      write_text_def base_path_def spline_path_def path_join_def base_text_def
      world_entry_def create_world_def get_resolution_def structures_def
      get_number_of_bundles_def generate_bundle_base_def create_bundle_object_def
      example_orm_def example_handler_def empty_fs_def example_output_def
      init_def add_bundle_def add_sphere_def str_nat.simps

lemma example_run:
  "generate_json_configuration_files example_orm example_handler ''test'' ''out'' empty_fs
     = Inr example_output"
  by (simp add: example_defs insert_commute)

lemma example_rerun:
  "generate_json_configuration_files example_orm example_handler ''test'' ''out'' example_output
     = Inr (example_output\<lparr>opened := opened example_output @ opened example_output\<rparr>)"
  by (simp add: example_defs insert_commute)

lemma example_structures:
  "structures example_handler =
     Inr [BundleObject [] [''f_0''] [1] [0, 0, 0], SphereEntry ''sphere'']"
  by (simp add: example_defs)

text \<open>
  Claim C3. When the generation succeeds, the geometry document holds exactly the text
  of lines 50 to 57, written out below: the world, the path, and between the brackets
  of \<open>"structures"\<close> the serialization of each entry of the list \<^verbatim>\<open>structures\<close>, every
  entry but the last followed by a comma and a line break. That list has one entry per
  bundle followed by one per sphere, \<open>n + m\<close> in all: the entry at a bundle's index \<open>i\<close>
  is the placeholder with the empty name, the file references \<open>["f_i"]\<close> (\<open>i\<close> in
  decimal), the weights \<open>[1]\<close> and the center of that bundle, and the entry at \<open>n + j\<close>
  is the sphere at index \<open>j\<close>. Indices follow insertion: \<^verbatim>\<open>add_bundle\<close> and
  \<^verbatim>\<open>add_sphere\<close> append.
\<close>

theorem structures_array:
  assumes "generate_json_configuration_files orm h naming sp s = Inr s'"
  shows "\<exists>structs.
      structures h = Inr structs
    \<and> files s' (path_join sp (naming @ ''_geometry_base.json'')) =
        Some (''{\<newline>'' @
              ''    \"world\": '' @
                world_serialize orm 6
                  \<lparr>dimension = int (length (get_resolution h)),
                   resolution = get_resolution h\<rparr> @
                '',\<newline>'' @
              ''    \"path\": \"'' @ sp @ ''\"'' @ '',\<newline>'' @
              ''    \"structures\": [\<newline>'' @ ''      '' @
                (if structs = [] then []
                 else concat (map (\<lambda>e. structure_serialize orm 8 e @ '',\<newline>'')
                                 (butlast structs))
                      @ structure_serialize orm 8 (last structs)) @
                ''\<newline>    ]\<newline>'' @
              ''}'')
    \<and> length structs = length (p_bundles h) + length (p_spheres h)
    \<and> (\<forall>i < length (p_bundles h).
          structs ! i =
            BundleObject [] [''f_'' @ str_nat i] [1] (get_bundle_center (p_bundles h ! i)))
    \<and> (\<forall>j < length (p_spheres h).
          structs ! (length (p_bundles h) + j) = SphereEntry (p_spheres h ! j))
    \<and> (\<forall>i. str_nat i \<noteq> []
           \<and> set (str_nat i) \<subseteq> set ''0123456789''
           \<and> (i \<noteq> 0 \<longrightarrow> hd (str_nat i) \<noteq> CHR ''0'')
           \<and> foldl (\<lambda>acc c. 10 * acc + (of_char c - 48)) 0 (str_nat i) = i)
    \<and> p_bundles (add_bundle h b) = p_bundles h @ [b]
    \<and> p_spheres (add_sphere h sphere) = p_spheres h @ [sphere]"
proof -
  let ?bs = "map (\<lambda>i. BundleObject [] [''f_'' @ str_nat i] [1]
                         (get_bundle_center (p_bundles h ! i))) [0..<length (p_bundles h)]"
  let ?st = "?bs @ map SphereEntry (p_spheres h)"
  have st: "structures h = Inr ?st" by (rule structures_eq)
  note doc = generate_document_entries [OF assms st]
  have len: "length ?st = length (p_bundles h) + length (p_spheres h)" by simp
  have bun: "\<forall>i < length (p_bundles h).
          ?st ! i = BundleObject [] [''f_'' @ str_nat i] [1] (get_bundle_center (p_bundles h ! i))"
    by (simp add: nth_append)
  have sph: "\<forall>j < length (p_spheres h).
          ?st ! (length (p_bundles h) + j) = SphereEntry (p_spheres h ! j)"
    by (simp add: nth_append)
  have dec: "\<forall>i. str_nat i \<noteq> []
           \<and> set (str_nat i) \<subseteq> set ''0123456789''
           \<and> (i \<noteq> 0 \<longrightarrow> hd (str_nat i) \<noteq> CHR ''0'')
           \<and> foldl (\<lambda>acc c. 10 * acc + (of_char c - 48)) 0 (str_nat i) = i"
    using str_nat_nonempty str_nat_digits str_nat_no_leading_zero str_nat_inverse by blast
  have ab: "p_bundles (add_bundle h b) = p_bundles h @ [b]"
    by (simp add: add_bundle_def)
  have asph: "p_spheres (add_sphere h sphere) = p_spheres h @ [sphere]"
    by (simp add: add_sphere_def)
  show ?thesis
    by (rule exI [of _ ?st]) (intro conjI st doc len bun sph dec ab asph)
qed

theorem structures_array_witness:
  "generate_json_configuration_files example_orm example_handler ''test'' ''out'' empty_fs
     = Inr example_output
   \<and> structures example_handler =
       Inr [BundleObject [] [''f_0''] [1] [0, 0, 0], SphereEntry ''sphere'']
   \<and> length (p_bundles example_handler) + length (p_spheres example_handler) = 2
   \<and> files example_output ''out/test_geometry_base.json'' =
       Some ''{\<newline>    \"world\": 3D 10,10,10,\<newline>    \"path\": \"out\",\<newline>    \"structures\": [\<newline>      f_0,\<newline>sphere\<newline>    ]\<newline>}''"
proof -
  from structures_array [OF example_run, of "\<lparr>get_bundle_center = [], serialize = []\<rparr>" "[]"]
  obtain structs where
    "structures example_handler = Inr structs"
    "length structs = length (p_bundles example_handler) + length (p_spheres example_handler)"
    by blast
  with example_run example_structures show ?thesis
    by (simp add: example_output_def)
qed

text \<open>
  Claim C4. When the generation succeeds, the files it opened are the geometry document
  and then, for each bundle index \<open>i\<close> in order, the file
  \<open>{output_naming}_f_{i}.vspl\<close> of the output directory; these \<open>n\<close> spline paths
  differ from one another and from the document's, and the file at index \<open>i\<close> holds the
  serialized payload of the bundle at index \<open>i\<close>.
\<close>

theorem spline_files:
  assumes "generate_json_configuration_files orm h naming sp s = Inr s'"
  shows "opened s' = opened s @ base_path naming sp
                       # map (spline_path naming sp) [0..<length (p_bundles h)]
    \<and> length (map (spline_path naming sp) [0..<length (p_bundles h)]) = length (p_bundles h)
    \<and> distinct (map (spline_path naming sp) [0..<length (p_bundles h)])
    \<and> base_path naming sp \<notin> set (map (spline_path naming sp) [0..<length (p_bundles h)])
    \<and> (\<forall>i < length (p_bundles h).
          spline_path naming sp i = path_join sp (naming @ ''_f_'' @ str_nat i @ ''.vspl'')
          \<and> files s' (spline_path naming sp i) = Some (serialize (p_bundles h ! i)))"
proof (intro conjI allI impI)
  show "opened s' = opened s @ base_path naming sp
                       # map (spline_path naming sp) [0..<length (p_bundles h)]"
    using assms by (rule generate_Inr(2))
  show "length (map (spline_path naming sp) [0..<length (p_bundles h)]) = length (p_bundles h)"
    by simp
  show "distinct (map (spline_path naming sp) [0..<length (p_bundles h)])"
    by (simp add: distinct_map spline_path_inj_on)
  show "base_path naming sp \<notin> set (map (spline_path naming sp) [0..<length (p_bundles h)])"
    using base_path_not_spline by auto
next
  fix i
  show "spline_path naming sp i = path_join sp (naming @ ''_f_'' @ str_nat i @ ''.vspl'')"
    by (simp add: spline_path_def)
next
  fix i assume "i < length (p_bundles h)"
  with assms show "files s' (spline_path naming sp i) = Some (serialize (p_bundles h ! i))"
    by (rule generate_spline_file)
qed

theorem spline_files_witness:
  "generate_json_configuration_files example_orm example_handler ''test'' ''out'' empty_fs
     = Inr example_output
   \<and> opened example_output = [''out/test_geometry_base.json'', ''out/test_f_0.vspl'']
   \<and> spline_path ''test'' ''out'' 0 = ''out/test_f_0.vspl''
   \<and> files example_output ''out/test_f_0.vspl'' = Some ''fibers''"
proof -
  have "(0::nat) < length (p_bundles example_handler)"
    by (simp add: example_handler_def init_def add_bundle_def add_sphere_def)
  with spline_files [OF example_run]
  have "files example_output (spline_path ''test'' ''out'' 0)
          = Some (serialize (p_bundles example_handler ! 0))"
    by blast
  with example_run show ?thesis
    by (simp add: example_output_def spline_path_def path_join_def str_nat.simps)
qed

text \<open>
  Claim C5. When the generation succeeds, the world entry of the geometry document is
  the serialization of the world built from the length of the resolution vector and the
  resolution vector alone. The handler keeps the spacing it was constructed with
  (\<^verbatim>\<open>get_spacing\<close> returns it), but the spacing is not part of the world entry and
  no file written depends on it: the same call on a handler that differs in its spacing
  only leaves the same file system.
\<close>

theorem world_entry_without_spacing:
  assumes "generate_json_configuration_files orm h naming sp s = Inr s'"
  shows "\<exists>structs.
      structures h = Inr structs
    \<and> files s' (path_join sp (naming @ ''_geometry_base.json'')) =
        Some (''{\<newline>'' @
              ''    \"world\": '' @
                world_serialize orm 6
                  \<lparr>dimension = int (length (get_resolution h)),
                   resolution = get_resolution h\<rparr> @
                '',\<newline>'' @
              ''    \"path\": \"'' @ sp @ ''\"'' @ '',\<newline>'' @
              ''    \"structures\": [\<newline>'' @ ''      '' @
                (if structs = [] then []
                 else concat (map (\<lambda>e. structure_serialize orm 8 e @ '',\<newline>'')
                                 (butlast structs))
                      @ structure_serialize orm 8 (last structs)) @
                ''\<newline>    ]\<newline>'' @
              ''}'')
    \<and> world_entry h =
        Inr \<lparr>dimension = int (length (get_resolution h)), resolution = get_resolution h\<rparr>
    \<and> generate_json_configuration_files orm (h\<lparr>p_spacing := spacing'\<rparr>) naming sp s = Inr s'
    \<and> get_resolution (h\<lparr>p_spacing := spacing'\<rparr>) = get_resolution h
    \<and> get_spacing (h\<lparr>p_spacing := spacing'\<rparr>) = spacing'
    \<and> get_resolution (init res spacing :: ('n, 'c, 's) GeometryHandler) = res
    \<and> get_spacing (init res spacing :: ('n, 'c, 's) GeometryHandler) = spacing"
proof -
  let ?st = "map (\<lambda>i. BundleObject [] [''f_'' @ str_nat i] [1]
                         (get_bundle_center (p_bundles h ! i))) [0..<length (p_bundles h)]
             @ map SphereEntry (p_spheres h)"
  have st: "structures h = Inr ?st" by (rule structures_eq)
  note doc = generate_document_entries [OF assms st]
  have we: "world_entry h =
        Inr \<lparr>dimension = int (length (get_resolution h)), resolution = get_resolution h\<rparr>"
    by (simp add: world_entry_eq get_resolution_def)
  have w: "world_entry (h\<lparr>p_spacing := spacing'\<rparr>) = world_entry h"
    by (simp add: world_entry_eq)
  have st': "structures (h\<lparr>p_spacing := spacing'\<rparr>) = structures h"
    by (simp add: structures_eq)
  have ws: "write_splines (h\<lparr>p_spacing := spacing'\<rparr>) naming sp idxs t
              = write_splines h naming sp idxs t" for idxs t
    by (induction idxs arbitrary: t) (simp_all split: sum.splits)
  have pb: "p_bundles (h\<lparr>p_spacing := spacing'\<rparr>) = p_bundles h"
    by simp
  have "generate_json_configuration_files orm (h\<lparr>p_spacing := spacing'\<rparr>) naming sp s
       = generate_json_configuration_files orm h naming sp s"
    unfolding generate_json_configuration_files_def w st' ws pb by (rule refl)
  with assms have gen:
    "generate_json_configuration_files orm (h\<lparr>p_spacing := spacing'\<rparr>) naming sp s = Inr s'"
    by simp
  have g1: "get_resolution (h\<lparr>p_spacing := spacing'\<rparr>) = get_resolution h"
    by (simp add: get_resolution_def)
  have g2: "get_spacing (h\<lparr>p_spacing := spacing'\<rparr>) = spacing'"
    by (simp add: get_spacing_def)
  have g3: "get_resolution (init res spacing :: ('n, 'c, 's) GeometryHandler) = res"
    by (simp add: get_resolution_def init_def)
  have g4: "get_spacing (init res spacing :: ('n, 'c, 's) GeometryHandler) = spacing"
    by (simp add: get_spacing_def init_def)
  show ?thesis
    by (rule exI [of _ ?st]) (intro conjI st doc we gen g1 g2 g3 g4)
qed

theorem world_entry_without_spacing_witness:
  "generate_json_configuration_files example_orm example_handler ''test'' ''out'' empty_fs
     = Inr example_output
   \<and> generate_json_configuration_files example_orm
       (example_handler\<lparr>p_spacing := [7, 8, 9]\<rparr>) ''test'' ''out'' empty_fs
     = Inr example_output
   \<and> world_entry example_handler = Inr \<lparr>dimension = 3, resolution = [10, 10, 10]\<rparr>
   \<and> get_spacing (example_handler\<lparr>p_spacing := [7, 8, 9]\<rparr>) = [7, 8, 9]
   \<and> files example_output ''out/test_geometry_base.json'' =
       Some ''{\<newline>    \"world\": 3D 10,10,10,\<newline>    \"path\": \"out\",\<newline>    \"structures\": [\<newline>      f_0,\<newline>sphere\<newline>    ]\<newline>}''"
proof -
  from world_entry_without_spacing [OF example_run, of "[7, 8, 9]" "[]" "[]"]
  have "generate_json_configuration_files example_orm
       (example_handler\<lparr>p_spacing := [7, 8, 9]\<rparr>) ''test'' ''out'' empty_fs
     = Inr example_output"
    and "world_entry example_handler =
        Inr \<lparr>dimension = int (length (get_resolution example_handler)),
             resolution = get_resolution example_handler\<rparr>"
    and "get_spacing (example_handler\<lparr>p_spacing := [7, 8, 9]\<rparr>) = [7, 8, 9]"
    by blast+
  with example_run show ?thesis
    by (simp add: example_output_def example_handler_def get_resolution_def init_def
          add_bundle_def add_sphere_def)
qed

text \<open>
  As the claim is stated it fails: the handlers constructed with spacing \<open>[2, 2, 2]\<close>
  and with spacing \<open>[3, 3, 3]\<close> over the resolution \<open>[10, 10, 10]\<close> write the same
  geometry document, whose world entry shows the dimension 3 and the resolution and no
  spacing, while their spacings differ.
\<close>

theorem world_entry_spacing_counterexample:
  "generate_json_configuration_files example_orm
       (add_sphere
          (add_bundle (init [10, 10, 10] [2, 2, 2 :: int])
             \<lparr>get_bundle_center = [0, 0, 0], serialize = ''fibers''\<rparr>)
          ''sphere'') ''test'' ''out'' empty_fs
     = Inr example_output
   \<and> generate_json_configuration_files example_orm
       (add_sphere
          (add_bundle (init [10, 10, 10] [3, 3, 3 :: int])
             \<lparr>get_bundle_center = [0, 0, 0], serialize = ''fibers''\<rparr>)
          ''sphere'') ''test'' ''out'' empty_fs
     = Inr example_output
   \<and> files example_output ''out/test_geometry_base.json'' =
       Some ''{\<newline>    \"world\": 3D 10,10,10,\<newline>    \"path\": \"out\",\<newline>    \"structures\": [\<newline>      f_0,\<newline>sphere\<newline>    ]\<newline>}''
   \<and> get_spacing
       (add_sphere
          (add_bundle (init [10, 10, 10] [2, 2, 2])
             \<lparr>get_bundle_center = [0, 0, 0 :: int], serialize = ''fibers''\<rparr>)
          ''sphere'') = [2, 2, 2 :: int]
   \<and> get_spacing
       (add_sphere
          (add_bundle (init [10, 10, 10] [3, 3, 3])
             \<lparr>get_bundle_center = [0, 0, 0 :: int], serialize = ''fibers''\<rparr>)
          ''sphere'') = [3, 3, 3 :: int]
   \<and> world_entry (init [10, 10, 10] [2, 2, 2] :: (int, unit, unit) GeometryHandler)
     = Inr \<lparr>dimension = 3, resolution = [10, 10, 10]\<rparr>
   \<and> world_entry (init [10, 10, 10] [3, 3, 3] :: (int, unit, unit) GeometryHandler)
     = Inr \<lparr>dimension = 3, resolution = [10, 10, 10]\<rparr>"
  by (simp add: example_defs get_spacing_def insert_commute)

text \<open>
  Claim C9. Two successful generations with the same serializers, handler, name and
  path, from any two file systems, leave the same text in every output file and open
  the same files in the same order; run one after the other, the second leaves the
  text of every file as the first left it.
\<close>

theorem generation_deterministic:
  assumes a: "generate_json_configuration_files orm h naming sp sA = Inr sA'"
      and b: "generate_json_configuration_files orm h naming sp sB = Inr sB'"
  shows "(\<forall>p \<in> set (base_path naming sp
                      # map (spline_path naming sp) [0..<length (p_bundles h)]).
            files sA' p = files sB' p \<and> files sA' p \<noteq> None)
    \<and> drop (length (opened sA)) (opened sA') = drop (length (opened sB)) (opened sB')
    \<and> (sB = sA' \<longrightarrow> files sB' = files sA')"
proof (intro conjI ballI impI)
  fix p
  assume "p \<in> set (base_path naming sp
                      # map (spline_path naming sp) [0..<length (p_bundles h)])"
  then consider "p = base_path naming sp"
    | i where "i < length (p_bundles h)" "p = spline_path naming sp i"
    by auto
  then have "files sA' p = files sB' p \<and> files sA' p \<noteq> None"
  proof cases
    case 1
    then show ?thesis
      by (simp add: generate_base_file [OF a] generate_base_file [OF b])
  next
    case 2
    then show ?thesis
      by (simp add: generate_spline_file [OF a] generate_spline_file [OF b])
  qed
  then show "files sA' p = files sB' p" and "files sA' p \<noteq> None" by blast+
next
  show "drop (length (opened sA)) (opened sA') = drop (length (opened sB)) (opened sB')"
    by (simp add: generate_Inr(2) [OF a] generate_Inr(2) [OF b])
next
  assume eq: "sB = sA'"
  show "files sB' = files sA'"
  proof
    fix p
    show "files sB' p = files sA' p"
    proof (cases "p = base_path naming sp")
      case True
      then show ?thesis
        by (simp add: generate_base_file [OF a] generate_base_file [OF b])
    next
      case nb: False
      show ?thesis
      proof (cases "p \<in> spline_path naming sp ` set [0..<length (p_bundles h)]")
        case True
        then obtain i where "i < length (p_bundles h)" "p = spline_path naming sp i" by auto
        then show ?thesis
          by (simp add: generate_spline_file [OF a] generate_spline_file [OF b])
      next
        case False
        from generate_other_file [OF b nb False] eq show ?thesis by simp
      qed
    qed
  qed
qed

theorem generation_deterministic_witness:
  "generate_json_configuration_files example_orm example_handler ''test'' ''out'' empty_fs
     = Inr example_output
   \<and> generate_json_configuration_files example_orm example_handler ''test'' ''out''
       example_output
     = Inr (example_output\<lparr>opened := opened example_output @ opened example_output\<rparr>)
   \<and> files (example_output\<lparr>opened := opened example_output @ opened example_output\<rparr>)
     = files example_output
   \<and> files example_output ''out/test_geometry_base.json'' =
       Some ''{\<newline>    \"world\": 3D 10,10,10,\<newline>    \"path\": \"out\",\<newline>    \"structures\": [\<newline>      f_0,\<newline>sphere\<newline>    ]\<newline>}''"
proof -
  from generation_deterministic [OF example_run example_rerun]
  have "files (example_output\<lparr>opened := opened example_output @ opened example_output\<rparr>)
          = files example_output"
    by blast
  with example_run example_rerun show ?thesis
    by (simp add: example_output_def)
qed

text \<open>
  Claim C10. With the default \<^verbatim>\<open>simulation_path\<close> the call raises
  \<open>FileNotFoundError\<close> at \<^verbatim>\<open>makedirs\<close>: the empty path does not exist and cannot be
  created, and the file system is as it was before the call, no file opened or written.
\<close>

theorem default_path_fails:
  "generate_json_configuration_files orm h naming simulation_path_default s
     = Inl (FileNotFoundError, s)"
  by (simp add: generate_json_configuration_files_def simulation_path_default_def
        path_exists_def makedirs_def)


end
